theory Spec2Isabelle
  imports Main "HOL-Library.AList"
begin

section \<open>Exceptions\<close>

text \<open>
  The values of this type are the instances of Python's \<open>Exception\<close> that the pipeline
  distinguishes. \<open>InvalidMessageException\<close> is a subclass of \<open>SkippableException\<close>
  (src/app/services/kafka\_consumer.py), the three Redis errors share the base class
  \<open>RedisError\<close>, and \<open>OtherException\<close> stands for every other subclass of
  \<open>Exception\<close>. Signals that derive from \<open>BaseException\<close> only (\<open>SystemExit\<close>,
  \<open>KeyboardInterrupt\<close>, task cancellation) end the process or the task and are not values
  of this type.
\<close>

datatype exn =
    CriticalException
  | SkippableException
  | InvalidMessageException
  | KeyError
  | AttributeError
  | TypeError
  | UnicodeDecodeError
  | JSONDecodeError
  | KafkaTimeoutError
  | KafkaConnectionError
  | ConnectionResetError
  | KafkaPublishMessageFailed
  | RedisConnectionError
  | RedisTimeoutError
  | RedisError
  | OtherException

text \<open>\<open>except SkippableException\<close> also catches the subclass.\<close>

definition is_skippable :: "exn \<Rightarrow> bool" where
  "is_skippable e = (e = SkippableException \<or> e = InvalidMessageException)"

text \<open>\<open>except (KafkaTimeoutError, KafkaConnectionError, ConnectionResetError)\<close>.\<close>

definition is_transient :: "exn \<Rightarrow> bool" where
  "is_transient e = (e = KafkaTimeoutError \<or> e = KafkaConnectionError \<or> e = ConnectionResetError)"

text \<open>\<open>except (exceptions.ConnectionError, exceptions.TimeoutError, exceptions.RedisError)\<close>.\<close>

definition is_redis_error :: "exn \<Rightarrow> bool" where
  "is_redis_error e = (e = RedisConnectionError \<or> e = RedisTimeoutError \<or> e = RedisError)"

section \<open>Values\<close>

type_synonym bytes = "nat list"

datatype json =
    JNull
  | JBool bool
  | JInt int
  | JStr string
  | JArr "json list"
  | JObj "(string \<times> json) list"

text \<open>Python truthiness, as used by \<open>if not event_type\<close>.\<close>

fun truthy :: "json \<Rightarrow> bool" where
  "truthy JNull = False"
| "truthy (JBool b) = b"
| "truthy (JInt i) = (i \<noteq> 0)"
| "truthy (JStr s) = (s \<noteq> [])"
| "truthy (JArr xs) = (xs \<noteq> [])"
| "truthy (JObj kv) = (kv \<noteq> [])"

text \<open>\<open>x.get(k)\<close>: \<open>None\<close> for a missing key of a dict, \<open>AttributeError\<close> on anything else.\<close>

fun py_get :: "json \<Rightarrow> string \<Rightarrow> exn + json" where
  "py_get (JObj kv) k = Inr (case map_of kv k of None \<Rightarrow> JNull | Some v \<Rightarrow> v)"
| "py_get _ k = Inl AttributeError"

section \<open>Retrying cache client (src/adapter/services/cache\_backend.py)\<close>

text \<open>
  \<open>RetryingRedis.execute_command\<close> returns the reply of the underlying command, or the
  value \<open>False\<close> once the retries are used up.
\<close>

datatype 'v reply = Reply 'v | False_sentinel

datatype cache_action = Execute | Log_timeout | Sleep_backoff nat

record retrying_redis =
  redis_retry_count :: nat
  redis_max_retries :: nat

text \<open>\<open>RetryingRedis.__init__\<close>.\<close>

definition retrying_redis_init :: retrying_redis where
  "retrying_redis_init = \<lparr>redis_retry_count = 0, redis_max_retries = 3\<rparr>"

text \<open>
  The \<open>while True\<close> loop of \<open>execute_command\<close>. The underlying client is given by the
  outcome of its successive calls: \<open>super_execute i\<close> is what the call made with
  \<open>_retry_count = i\<close> does (every failed call increments the counter, so the counter
  numbers the calls). The result carries the client, whose counter the loop mutates,
  and the calls and sleeps in program order.
\<close>

function execute_loop ::
  "(nat \<Rightarrow> exn + 'v) \<Rightarrow> retrying_redis \<Rightarrow> (exn + 'v reply) \<times> retrying_redis \<times> cache_action list" where
  "execute_loop super_execute r =
     (case super_execute (redis_retry_count r) of
        Inr v \<Rightarrow> (Inr (Reply v), r, [Execute])
      | Inl e \<Rightarrow>
          if is_redis_error e then
            (let r' = r\<lparr>redis_retry_count := redis_retry_count r + 1\<rparr> in
             if redis_retry_count r' > redis_max_retries r' then (Inr False_sentinel, r', [Execute, Log_timeout])
             else
               (let backoff = 2 ^ (redis_retry_count r' - 1);
                    (res, r'', t) = execute_loop super_execute r'
                in (res, r'', Execute # Sleep_backoff backoff # t)))
          else (Inl e, r, [Execute]))"
  by pat_completeness auto
termination
  by (relation "measure (\<lambda>(s, r). Suc (redis_max_retries r) - redis_retry_count r)") auto

declare execute_loop.simps [simp del]

definition execute_command ::
  "(nat \<Rightarrow> exn + 'v) \<Rightarrow> retrying_redis \<Rightarrow> (exn + 'v reply) \<times> retrying_redis \<times> cache_action list" where
  "execute_command super_execute r = execute_loop super_execute (r\<lparr>redis_retry_count := 0\<rparr>)"

text \<open>\<open>RedisCacheBackend.get\<close> issues the command through the retrying client.\<close>

definition cache_get ::
  "(nat \<Rightarrow> exn + 'v) \<Rightarrow> retrying_redis \<Rightarrow> (exn + 'v reply) \<times> retrying_redis \<times> cache_action list" where
  "cache_get super_execute r = execute_command super_execute r"

text \<open>The sleeps of a run, in order.\<close>

fun sleeps :: "cache_action list \<Rightarrow> nat list" where
  "sleeps [] = []"
| "sleeps (Sleep_backoff d # t) = d # sleeps t"
| "sleeps (_ # t) = sleeps t"

definition executions :: "cache_action list \<Rightarrow> nat" where
  "executions t = length (filter (\<lambda>a. a = Execute) t)"

section \<open>Producer (src/adapter/services/kafka\_producer.py)\<close>

text \<open>The message built in each turn of the send loop.\<close>

record envelope =
  env_event_type :: string
  env_payload :: "(string \<times> json) list"
  env_issued_at :: int

datatype producer_action =
    Transport_start
  | Send string bytes "bytes option"
  | Sleep_fixed int
  | Log_failed

text \<open>
  The producer object. \<open>MAX_RETRY\<close> and \<open>RETRY_DELAY\<close> come from the module
  \<open>constant\<close>, which the repository does not contain: they are fields here.
\<close>

record producer =
  p_topic :: string
  p_max_retry :: int
  p_delay :: int
  p_started :: bool

text \<open>
  What the producer calls: the transport (\<open>transport_send i\<close> is the outcome of the
  send number \<open>i\<close> of one call of \<open>publish\<close>, \<open>None\<close> when the broker acknowledges
  it), \<open>json.dumps\<close>, \<open>str.encode\<close> and the clock. The keys are strings that
  \<open>str.encode("utf-8")\<close> encodes: a Python string with a lone surrogate, on which
  \<open>encode\<close> raises before the first send, is not a value of \<open>string\<close>.
\<close>

record transport =
  transport_start :: "exn option"
  transport_send :: "nat \<Rightarrow> exn option"
  json_dumps :: "envelope \<Rightarrow> exn + bytes"
  utf8_encode :: "string \<Rightarrow> bytes"
  clock_now :: int

definition producer_start :: "transport \<Rightarrow> producer \<Rightarrow> exn option \<times> producer \<times> producer_action list" where
  "producer_start T p =
     (if \<not> p_started p then
        (case transport_start T of
           Some e \<Rightarrow> (Some e, p, [Transport_start])
         | None \<Rightarrow> (None, p\<lparr>p_started := True\<rparr>, [Transport_start]))
      else (None, p, []))"

text \<open>
  The two values rebuilt in every turn of the loop: the message
  (\<open>event_type or ""\<close>, \<open>payload or {}\<close>, \<open>issued_at\<close>) and the encoded key
  (\<open>key.encode("utf-8") if key else None\<close>).
\<close>

definition message_of :: "string option \<Rightarrow> (string \<times> json) list option \<Rightarrow> int \<Rightarrow> envelope" where
  "message_of event_type payload issued_at =
     \<lparr>env_event_type = (case event_type of None \<Rightarrow> [] | Some s \<Rightarrow> s),
      env_payload = (case payload of None \<Rightarrow> [] | Some kv \<Rightarrow> kv),
      env_issued_at = issued_at\<rparr>"

definition key_formatted :: "transport \<Rightarrow> string option \<Rightarrow> bytes option" where
  "key_formatted T key =
     (case key of None \<Rightarrow> None | Some k \<Rightarrow> if k = [] then None else Some (utf8_encode T k))"

text \<open>\<open>if not issued_at: issued_at = datetime.now(tz=timezone.utc)\<close>, once, before the loop.\<close>

definition issued_at_or_now :: "transport \<Rightarrow> int option \<Rightarrow> int" where
  "issued_at_or_now T issued_at = (case issued_at of None \<Rightarrow> clock_now T | Some d \<Rightarrow> d)"

text \<open>
  The \<open>while True\<close> loop of \<open>publish\<close>; \<open>sent\<close> counts the sends made so far, to
  ask the transport for the outcome of the next one.
\<close>

function publish_loop ::
  "transport \<Rightarrow> producer \<Rightarrow> string option \<Rightarrow> (string \<times> json) list option \<Rightarrow> string option \<Rightarrow> int
     \<Rightarrow> nat \<Rightarrow> nat \<Rightarrow> (exn + unit) \<times> producer_action list" where
  "publish_loop T p event_type payload key issued_at retry_count sent =
     (let message = message_of event_type payload issued_at;
          key_f = key_formatted T key
      in case json_dumps T message of
           Inl e \<Rightarrow>
             if is_transient e then
               if int retry_count \<ge> p_max_retry p then (Inl KafkaPublishMessageFailed, [Log_failed])
               else
                 (let (r, t) = publish_loop T p event_type payload key issued_at (retry_count + 1) sent
                  in (r, Sleep_fixed (p_delay p) # t))
             else (Inl KafkaPublishMessageFailed, [Log_failed])
         | Inr message_value \<Rightarrow>
             (case transport_send T sent of
                None \<Rightarrow> (Inr (), [Send (p_topic p) message_value key_f])
              | Some e \<Rightarrow>
                  if is_transient e then
                    if int retry_count \<ge> p_max_retry p then
                      (Inl KafkaPublishMessageFailed, [Send (p_topic p) message_value key_f, Log_failed])
                    else
                      (let (r, t) = publish_loop T p event_type payload key issued_at (retry_count + 1) (sent + 1)
                       in (r, Send (p_topic p) message_value key_f # Sleep_fixed (p_delay p) # t))
                  else (Inl KafkaPublishMessageFailed, [Send (p_topic p) message_value key_f, Log_failed])))"
  by pat_completeness auto
termination
  by (relation "measure (\<lambda>(T, p, et, pl, k, ia, retry_count, sent). nat (p_max_retry p - int retry_count))") auto

declare publish_loop.simps [simp del]

definition publish ::
  "transport \<Rightarrow> producer \<Rightarrow> string option \<Rightarrow> (string \<times> json) list option \<Rightarrow> string option \<Rightarrow> int option
     \<Rightarrow> (exn + unit) \<times> producer \<times> producer_action list" where
  "publish T p event_type payload key issued_at =
     (case (if \<not> p_started p then producer_start T p else (None, p, [])) of
        (Some e, p', t) \<Rightarrow> (Inl e, p', t)
      | (None, p', t) \<Rightarrow>
          (let issued = issued_at_or_now T issued_at;
               (r, t') = publish_loop T p' event_type payload key issued 0 0
           in (r, p', t @ t')))"

definition is_send :: "producer_action \<Rightarrow> bool" where
  "is_send a = (case a of Send tp v k \<Rightarrow> True | _ \<Rightarrow> False)"

definition send_count :: "producer_action list \<Rightarrow> nat" where
  "send_count t = length (filter is_send t)"

definition sleep_delays :: "producer_action list \<Rightarrow> int list" where
  "sleep_delays t = concat (map (\<lambda>a. case a of Sleep_fixed d \<Rightarrow> [d] | _ \<Rightarrow> []) t)"

text \<open>A transport whose every send times out, and a producer with three retries.\<close>

definition failing_transport :: transport where
  "failing_transport =
     \<lparr>transport_start = None, transport_send = (\<lambda>i. Some KafkaTimeoutError),
      json_dumps = (\<lambda>m. Inr [1, 2, 3]), utf8_encode = map of_char, clock_now = 1000\<rparr>"

text \<open>A transport whose first two sends time out and whose third is acknowledged.\<close>

definition flaky_transport :: transport where
  "flaky_transport =
     \<lparr>transport_start = None, transport_send = (\<lambda>i. if i < 2 then Some KafkaTimeoutError else None),
      json_dumps = (\<lambda>m. Inr [1, 2, 3]), utf8_encode = map of_char, clock_now = 1000\<rparr>"

text \<open>The same transport with a message that \<open>json.dumps\<close> refuses.\<close>

definition unserialisable_transport :: transport where
  "unserialisable_transport = flaky_transport\<lparr>json_dumps := (\<lambda>m. Inl TypeError)\<rparr>"

definition producer3 :: producer where
  "producer3 = \<lparr>p_topic = ''users'', p_max_retry = 3, p_delay = 5, p_started = False\<rparr>"

section \<open>Consumer (src/app/services/kafka\_consumer.py, src/adapter/services/kafka\_consumer.py)\<close>

subsection \<open>Data\<close>

type_synonym topic_partition = "string \<times> nat"

datatype header_value = Header_bytes bytes | Header_str string

text \<open>A record of the transport: value, key, offset and headers. Value and key may be \<open>None\<close>.\<close>

record consumer_record =
  rec_value :: "bytes option"
  rec_key :: "bytes option"
  rec_offset :: int
  rec_headers :: "(string \<times> header_value) list"

text \<open>The result of \<open>getmany\<close>: the partitions in the order of \<open>message_batch.items()\<close>.\<close>

type_synonym batch = "(topic_partition \<times> consumer_record list) list"

record meta_data =
  md_offset :: "int option"
  md_key :: "string option"
  md_topic_partition :: "topic_partition option"

text \<open>The dictionary that \<open>_get_new_event\<close> returns for a decoded record.\<close>

record event =
  ev_event :: json
  ev_meta_data :: meta_data
  ev_headers :: "(string \<times> header_value) list"

text \<open>\<open>self._headers\<close>: the trace header, whose values may be \<open>None\<close>.\<close>

type_synonym trace_header = "(string \<times> string option) list"

text \<open>The optional audit sink (\<open>event_root_mapper_service\<close>).\<close>

record mapper_service =
  svc_create_header :: "exn + trace_header"
  svc_save_header :: "trace_header \<Rightarrow> json \<Rightarrow> string \<Rightarrow> json \<Rightarrow> json \<Rightarrow> exn option"

text \<open>The calls and log lines of the consumer, recorded in program order.\<close>

datatype action =
    Getmany
  | Log_decoding_error
  | Log_get_event_error exn
  | Sleep_debounce
  | Decode_headers
  | Log_header_error
  | Set_headers trace_header
  | Filter_call json
  | Before_handle json
  | Handle json
  | After_handle json
  | Log_skipped exn
  | Log_critical exn
  | Log_unexpected exn
  | Save_header trace_header
  | Commit topic_partition int
  | Log_committed
  | Log_commit_error exn
  | Log_cannot_commit
  | Log_finished
  | Consumer_start
  | Log_listening

text \<open>
  What the consumer is built from and what it calls: the transport over a state \<open>'w\<close>
  (\<open>getmany\<close>, \<open>commit\<close>, \<open>start\<close>), the codecs of the standard library, the business
  handler, the filters and the two optional callbacks. Filters, callbacks and handler
  are given by what they return or raise on an event. \<open>bytes.decode\<close> fails with a
  \<open>UnicodeDecodeError\<close> only (\<open>None\<close>); \<open>json.loads\<close> raises a
  \<open>JSONDecodeError\<close> on malformed text and may raise other exceptions (a
  \<open>RecursionError\<close> on deep nesting, a plain \<open>ValueError\<close>), so its failure carries
  the exception.
\<close>

record 'w consumer_config =
  getmany :: "'w \<Rightarrow> (exn + batch) \<times> 'w"
  commit :: "topic_partition \<Rightarrow> int \<Rightarrow> 'w \<Rightarrow> exn option \<times> 'w"
  consumer_start :: "'w \<Rightarrow> exn option \<times> 'w"
  utf8_decode :: "bytes \<Rightarrow> string option"
  json_loads :: "string \<Rightarrow> exn + json"
  handlers :: "(json \<Rightarrow> exn option) option"
  filters :: "(json \<Rightarrow> exn option) list"
  before_handle_callback :: "(json \<Rightarrow> exn + json) option"
  after_handle_callback :: "(json \<Rightarrow> exn option) option"

text \<open>
  The mutable state of the consumer object. Python mangles a name with two leading
  underscores by the class in whose body it is written: \<open>self.__started\<close>,
  \<open>self.__topic\<close> and \<open>self.__event_root_mapper_service\<close> read inside
  \<open>BackendKafkaConsumer\<close> are the attributes \<open>_BackendKafkaConsumer__started\<close> and so
  on, not the ones that \<open>AIOKafkaConsumerImplementation.__init__\<close> assigns. The fields
  \<open>base_started\<close>, \<open>base_topic\<close> and \<open>base_mapper\<close> are the attributes of the base
  class, \<open>None\<close> when the object has no such attribute (reading it raises
  \<open>AttributeError\<close>); \<open>impl_started\<close> is the attribute of the implementation class.
\<close>

record 'w consumer =
  world :: 'w
  stopped :: bool
  impl_started :: bool
  mongo_connected :: bool
  cur_headers :: trace_header
  base_started :: "bool option"
  base_topic :: "string option"
  base_mapper :: "mapper_service option option"

text \<open>The state that \<open>AIOKafkaConsumerImplementation.__init__\<close> leaves.\<close>

definition consumer_init :: "'w \<Rightarrow> mapper_service option \<Rightarrow> 'w consumer" where
  "consumer_init w event_root_mapper_service =
     \<lparr>world = w, stopped = False, impl_started = False,
      mongo_connected = (event_root_mapper_service \<noteq> None), cur_headers = [],
      base_started = None, base_topic = None, base_mapper = None\<rparr>"

subsection \<open>Polling and decoding: \<open>_get_new_event\<close>\<close>

text \<open>The \<open>for\<close> loop over the batch returns at the first partition that has a message.\<close>

fun first_record :: "batch \<Rightarrow> (topic_partition \<times> consumer_record) option" where
  "first_record [] = None"
| "first_record ((tp, messages) # rest) =
     (case messages of [] \<Rightarrow> first_record rest | r # _ \<Rightarrow> Some (tp, r))"

text \<open>
  \<open>message['key'] = key\<close> when the message is a dictionary with \<open>event_type\<close> and
  \<open>payload\<close>.
\<close>

definition add_key :: "json \<Rightarrow> string option \<Rightarrow> json" where
  "add_key message key =
     (case message of
        JObj kv \<Rightarrow>
          if map_of kv ''event_type'' \<noteq> None \<and> map_of kv ''payload'' \<noteq> None
          then JObj (AList.update ''key'' (case key of None \<Rightarrow> JNull | Some k \<Rightarrow> JStr k) kv)
          else message
      | _ \<Rightarrow> message)"

text \<open>The body of the inner \<open>try\<close>, and the dictionary built from it.\<close>

definition decode_record :: "'w consumer_config \<Rightarrow> topic_partition \<Rightarrow> consumer_record \<Rightarrow> exn + event" where
  "decode_record cfg tp r =
     (case rec_value r of
        None \<Rightarrow> Inl AttributeError
      | Some body \<Rightarrow>
          (case utf8_decode cfg body of
             None \<Rightarrow> Inl UnicodeDecodeError
           | Some text \<Rightarrow>
               (case json_loads cfg text of
                  Inl e \<Rightarrow> Inl e
                | Inr message \<Rightarrow>
                    (case (case rec_key r of
                             None \<Rightarrow> Inr None
                           | Some kb \<Rightarrow>
                               if kb = [] then Inr None
                               else (case utf8_decode cfg kb of
                                       None \<Rightarrow> Inl UnicodeDecodeError
                                     | Some k \<Rightarrow> Inr (Some k))) of
                       Inl e \<Rightarrow> Inl e
                     | Inr key \<Rightarrow>
                         Inr \<lparr>ev_event = add_key message key,
                              ev_meta_data = \<lparr>md_offset = Some (rec_offset r), md_key = key,
                                              md_topic_partition = Some tp\<rparr>,
                              ev_headers = rec_headers r\<rparr>))))"

text \<open>
  The body of the outer \<open>try\<close>: the inner handler turns a \<open>UnicodeDecodeError\<close> or a
  \<open>JSONDecodeError\<close> into the empty result; anything else leaves the body as an
  exception. \<open>None\<close> is the empty dictionary \<open>{}\<close>.
\<close>

definition get_new_event_body ::
  "'w consumer_config \<Rightarrow> 'w consumer \<Rightarrow> (exn + event option) \<times> 'w consumer \<times> action list" where
  "get_new_event_body cfg s =
     (case getmany cfg (world s) of
        (Inl e, w) \<Rightarrow> (Inl e, s\<lparr>world := w\<rparr>, [Getmany])
      | (Inr message_batch, w) \<Rightarrow>
          (case first_record message_batch of
             None \<Rightarrow> (Inr None, s\<lparr>world := w\<rparr>, [Getmany])
           | Some (tp, r) \<Rightarrow>
               (case decode_record cfg tp r of
                  Inl e \<Rightarrow>
                    if e = UnicodeDecodeError \<or> e = JSONDecodeError
                    then (Inr None, s\<lparr>world := w\<rparr>, [Getmany, Log_decoding_error])
                    else (Inl e, s\<lparr>world := w\<rparr>, [Getmany])
                | Inr ev \<Rightarrow> (Inr (Some ev), s\<lparr>world := w\<rparr>, [Getmany]))))"

text \<open>\<open>_get_new_event\<close>: the outer \<open>except Exception\<close> logs and returns \<open>{}\<close>.\<close>

definition get_new_event ::
  "'w consumer_config \<Rightarrow> 'w consumer \<Rightarrow> (exn + event option) \<times> 'w consumer \<times> action list" where
  "get_new_event cfg s =
     (case get_new_event_body cfg s of
        (Inl e, s', t) \<Rightarrow> (Inr None, s', t @ [Log_get_event_error e])
      | (Inr ev, s', t) \<Rightarrow> (Inr ev, s', t))"

subsection \<open>Trace headers: \<open>_decode_headers\<close> and \<open>_create_header\<close>\<close>

fun decode_header_keys ::
  "(bytes \<Rightarrow> string option) \<Rightarrow> (string \<rightharpoonup> header_value) \<Rightarrow> string list \<Rightarrow> exn + (string \<times> string) list" where
  "decode_header_keys dec h [] = Inr []"
| "decode_header_keys dec h (k # ks) =
     (case h k of
        None \<Rightarrow> decode_header_keys dec h ks
      | Some (Header_str v) \<Rightarrow>
          (case decode_header_keys dec h ks of Inl e \<Rightarrow> Inl e | Inr res \<Rightarrow> Inr ((k, v) # res))
      | Some (Header_bytes b) \<Rightarrow>
          (case dec b of
             None \<Rightarrow> Inl UnicodeDecodeError
           | Some v \<Rightarrow>
               (case decode_header_keys dec h ks of Inl e \<Rightarrow> Inl e | Inr res \<Rightarrow> Inr ((k, v) # res))))"

text \<open>
  \<open>_decode_headers(dict(headers or []))\<close>: in the dictionary the last of several equal
  keys wins.
\<close>

definition decode_headers :: "'w consumer_config \<Rightarrow> (string \<times> header_value) list \<Rightarrow> exn + (string \<times> string) list" where
  "decode_headers cfg headers =
     decode_header_keys (utf8_decode cfg) (map_of (rev headers)) [''root_id'', ''parent_id'', ''event_id'']"

definition header_triple :: "(string \<times> string) list \<Rightarrow> trace_header" where
  "header_triple log_header =
     [(''root_id'', map_of log_header ''root_id''),
      (''parent_id'', map_of log_header ''parent_id''),
      (''event_id'', map_of log_header ''event_id'')]"

text \<open>
  \<open>_create_header\<close>. The first \<open>try\<close> turns a \<open>KeyError\<close> into an
  \<open>InvalidMessageException\<close> and lets every other exception through; the second turns
  every exception into an \<open>InvalidMessageException\<close>.
\<close>

definition create_header ::
  "'w consumer_config \<Rightarrow> 'w consumer \<Rightarrow> (string \<times> header_value) list \<Rightarrow> exn option \<times> 'w consumer \<times> action list" where
  "create_header cfg s headers =
     (case decode_headers cfg headers of
        Inl e \<Rightarrow>
          if e = KeyError then (Some InvalidMessageException, s, [Decode_headers])
          else (Some e, s, [Decode_headers])
      | Inr decoded_headers \<Rightarrow>
          (case (if \<not> mongo_connected s then Inr (map (\<lambda>(k, v). (k, Some v)) decoded_headers)
                 else if decoded_headers = [] then
                   (case base_mapper s of
                      None \<Rightarrow> Inl AttributeError
                    | Some None \<Rightarrow> Inr (header_triple decoded_headers)
                    | Some (Some svc) \<Rightarrow> svc_create_header svc)
                 else Inr (header_triple decoded_headers)) of
             Inl e \<Rightarrow> (Some InvalidMessageException, s, [Decode_headers, Log_header_error])
           | Inr log_header \<Rightarrow>
               (None, s\<lparr>cur_headers := log_header\<rparr>, [Decode_headers, Set_headers log_header])))"

subsection \<open>Filters and dispatch: \<open>_filter_event\<close> and \<open>_handle_event\<close>\<close>

text \<open>The filters run in order; the first that raises ends the chain.\<close>

fun filter_event :: "(json \<Rightarrow> exn option) list \<Rightarrow> json \<Rightarrow> exn option \<times> action list" where
  "filter_event [] ev = (None, [])"
| "filter_event (f # fs) ev =
     (case f ev of
        Some e \<Rightarrow> (Some e, [Filter_call ev])
      | None \<Rightarrow> (let (r, t) = filter_event fs ev in (r, Filter_call ev # t)))"

text \<open>The body of the \<open>try\<close> of \<open>_handle_event\<close>.\<close>

definition handle_event_body :: "'w consumer_config \<Rightarrow> json \<Rightarrow> exn option \<times> action list" where
  "handle_event_body cfg ev =
     (case filter_event (filters cfg) ev of
        (Some e, t) \<Rightarrow> (Some e, t)
      | (None, t) \<Rightarrow>
          (case (case before_handle_callback cfg of
                   None \<Rightarrow> (Inr ev, [])
                 | Some cb \<Rightarrow> (cb ev, [Before_handle ev])) of
             (Inl e, t1) \<Rightarrow> (Some e, t @ t1)
           | (Inr ev', t1) \<Rightarrow>
               (case py_get ev' ''event_type'' of
                  Inl e \<Rightarrow> (Some e, t @ t1)
                | Inr event_type \<Rightarrow>
                    if \<not> truthy event_type then (Some InvalidMessageException, t @ t1)
                    else
                      (case handlers cfg of
                         None \<Rightarrow> (Some AttributeError, t @ t1)
                       | Some handle \<Rightarrow>
                           (case handle ev' of
                              Some e \<Rightarrow> (Some e, t @ t1 @ [Handle ev'])
                            | None \<Rightarrow>
                                (case after_handle_callback cfg of
                                   None \<Rightarrow> (None, t @ t1 @ [Handle ev'])
                                 | Some cb \<Rightarrow> (cb ev', t @ t1 @ [Handle ev', After_handle ev'])))))))"

text \<open>
  \<open>_handle_event\<close>: a skippable and a critical exception are logged and raised again,
  every other exception is logged and replaced by a \<open>CriticalException\<close>.
\<close>

definition handle_event :: "'w consumer_config \<Rightarrow> json \<Rightarrow> exn option \<times> action list" where
  "handle_event cfg ev =
     (case handle_event_body cfg ev of
        (None, t) \<Rightarrow> (None, t)
      | (Some e, t) \<Rightarrow>
          if is_skippable e then (Some e, t @ [Log_skipped e])
          else if e = CriticalException then (Some e, t @ [Log_critical e])
          else (Some CriticalException, t @ [Log_unexpected e]))"

subsection \<open>Committing: \<open>_commit_event\<close>\<close>

text \<open>An exception of the transport's commit is logged, not raised.\<close>

definition commit_event :: "'w consumer_config \<Rightarrow> 'w consumer \<Rightarrow> event \<Rightarrow> 'w consumer \<times> action list" where
  "commit_event cfg s ev =
     (let event_metadata = ev_meta_data ev
      in case (md_topic_partition event_metadata, md_offset event_metadata) of
           (Some tp, Some off) \<Rightarrow>
             (case commit cfg tp (off + 1) (world s) of
                (None, w) \<Rightarrow> (s\<lparr>world := w\<rparr>, [Commit tp (off + 1), Log_committed])
              | (Some e, w) \<Rightarrow> (s\<lparr>world := w\<rparr>, [Commit tp (off + 1), Log_commit_error e]))
         | _ \<Rightarrow> (s, [Log_cannot_commit]))"

subsection \<open>The loop: \<open>listen\<close>\<close>

text \<open>The body of the \<open>try\<close> in the loop: the trace header first, then the dispatch.\<close>

definition listen_try ::
  "'w consumer_config \<Rightarrow> 'w consumer \<Rightarrow> json \<Rightarrow> (string \<times> header_value) list
     \<Rightarrow> exn option \<times> 'w consumer \<times> action list" where
  "listen_try cfg s event_data headers =
     (case create_header cfg s headers of
        (Some e, s', t) \<Rightarrow> (Some e, s', t)
      | (None, s', t) \<Rightarrow>
          (case handle_event cfg event_data of (r, t') \<Rightarrow> (r, s', t @ t')))"

text \<open>
  The \<open>else\<close> branch before the commit: the header is saved when the audit sink is
  set. The arguments are evaluated from left to right.
\<close>

definition listen_save_header :: "'w consumer \<Rightarrow> json \<Rightarrow> exn option \<times> action list" where
  "listen_save_header s event_data =
     (case base_mapper s of
        None \<Rightarrow> (Some AttributeError, [])
      | Some None \<Rightarrow> (None, [])
      | Some (Some svc) \<Rightarrow>
          (case py_get event_data ''payload'' of
             Inl e \<Rightarrow> (Some e, [])
           | Inr payload \<Rightarrow>
               (case base_topic s of
                  None \<Rightarrow> (Some AttributeError, [])
                | Some topic \<Rightarrow>
                    (case py_get event_data ''event_type'' of
                       Inl e \<Rightarrow> (Some e, [])
                     | Inr event_type \<Rightarrow>
                         (case py_get event_data ''issued_at'' of
                            Inl e \<Rightarrow> (Some e, [])
                          | Inr issued_at \<Rightarrow>
                              (svc_save_header svc (cur_headers s) payload topic event_type issued_at,
                               [Save_header (cur_headers s)]))))))"

datatype outcome = Continue | Raised exn

text \<open>One turn of the \<open>while\<close> loop, entered with the stop flag unset.\<close>

definition listen_iteration ::
  "'w consumer_config \<Rightarrow> 'w consumer \<Rightarrow> outcome \<times> 'w consumer \<times> action list" where
  "listen_iteration cfg s =
     (case get_new_event cfg s of
        (Inl e, s1, t1) \<Rightarrow> (Raised e, s1, t1)
      | (Inr None, s1, t1) \<Rightarrow> (Continue, s1, t1 @ [Sleep_debounce])
      | (Inr (Some ev), s1, t1) \<Rightarrow>
          (let event_data = ev_event ev; headers = ev_headers ev
           in case listen_try cfg s1 event_data headers of
                (Some e, s2, t2) \<Rightarrow>
                  if is_skippable e then
                    (case commit_event cfg s2 ev of
                       (s3, t3) \<Rightarrow> (Continue, s3, t1 @ t2 @ [Log_skipped e] @ t3 @ [Log_finished]))
                  else if e = CriticalException then
                    (Raised e, s2, t1 @ t2 @ [Log_critical e, Log_finished])
                  else (Raised e, s2, t1 @ t2 @ [Log_finished])
              | (None, s2, t2) \<Rightarrow>
                  (case listen_save_header s2 event_data of
                     (Some e, t3) \<Rightarrow> (Raised e, s2, t1 @ t2 @ t3 @ [Log_finished])
                   | (None, t3) \<Rightarrow>
                       (case commit_event cfg s2 ev of
                          (s3, t4) \<Rightarrow> (Continue, s3, t1 @ t2 @ t3 @ t4 @ [Log_finished])))))"

text \<open>
  The loop runs until the stop flag is set or an exception leaves it. The flag is set
  by a signal handler, from outside the loop: no step of the loop changes it. The loop
  is given a number of turns; \<open>Running\<close> says that it has used them and goes on.
\<close>

datatype listen_result = Stopped | Failed exn | Running

fun listen_loop ::
  "nat \<Rightarrow> 'w consumer_config \<Rightarrow> 'w consumer \<Rightarrow> listen_result \<times> 'w consumer \<times> action list" where
  "listen_loop n cfg s =
     (if stopped s then (Stopped, s, [])
      else case n of
             0 \<Rightarrow> (Running, s, [])
           | Suc m \<Rightarrow>
               (case listen_iteration cfg s of
                  (Raised e, s', t) \<Rightarrow> (Failed e, s', t)
                | (Continue, s', t) \<Rightarrow>
                    (case listen_loop m cfg s' of (r, s'', t') \<Rightarrow> (r, s'', t @ t'))))"

declare listen_loop.simps [simp del]

definition start :: "'w consumer_config \<Rightarrow> 'w consumer \<Rightarrow> exn option \<times> 'w consumer \<times> action list" where
  "start cfg s =
     (if \<not> impl_started s then
        (case consumer_start cfg (world s) of
           (Some e, w) \<Rightarrow> (Some e, s\<lparr>world := w\<rparr>, [Consumer_start])
         | (None, w) \<Rightarrow> (None, s\<lparr>world := w, impl_started := True\<rparr>, [Consumer_start]))
      else (None, s, []))"

definition listen ::
  "nat \<Rightarrow> 'w consumer_config \<Rightarrow> 'w consumer \<Rightarrow> listen_result \<times> 'w consumer \<times> action list" where
  "listen n cfg s =
     (case base_started s of
        None \<Rightarrow> (Failed AttributeError, s, [])
      | Some started \<Rightarrow>
          (case (if \<not> started then start cfg s else (None, s, [])) of
             (Some e, s1, t1) \<Rightarrow> (Failed e, s1, t1)
           | (None, s1, t1) \<Rightarrow>
               (case listen_loop n cfg s1 of (r, s2, t2) \<Rightarrow> (r, s2, t1 @ [Log_listening] @ t2))))"

subsection \<open>Reading a run\<close>

text \<open>The commits and the handler calls of a run, in order.\<close>

fun commits :: "action list \<Rightarrow> (topic_partition \<times> int) list" where
  "commits [] = []"
| "commits (Commit tp off # t) = (tp, off) # commits t"
| "commits (_ # t) = commits t"

fun handled :: "action list \<Rightarrow> json list" where
  "handled [] = []"
| "handled (Handle ev # t) = ev # handled t"
| "handled (_ # t) = handled t"

text \<open>
  The stage of the loop an action belongs to: poll, decode, trace header, filter,
  before-callback, handler, after-callback, classification, audit, commit, end.
\<close>

fun stage :: "action \<Rightarrow> nat" where
  "stage Getmany = 0"
| "stage Log_decoding_error = 1"
| "stage (Log_get_event_error e) = 1"
| "stage Decode_headers = 2"
| "stage Log_header_error = 2"
| "stage (Set_headers h) = 2"
| "stage (Filter_call ev) = 3"
| "stage (Before_handle ev) = 4"
| "stage (Handle ev) = 5"
| "stage (After_handle ev) = 6"
| "stage (Log_skipped e) = 7"
| "stage (Log_critical e) = 7"
| "stage (Log_unexpected e) = 7"
| "stage (Save_header h) = 8"
| "stage (Commit tp off) = 9"
| "stage Log_committed = 9"
| "stage (Log_commit_error e) = 9"
| "stage Log_cannot_commit = 9"
| "stage Log_finished = 10"
| "stage Sleep_debounce = 10"
| "stage Consumer_start = 0"
| "stage Log_listening = 0"

text \<open>A run whose actions come in the order of their stages, all between two bounds.\<close>

definition staged :: "nat \<Rightarrow> nat \<Rightarrow> action list \<Rightarrow> bool" where
  "staged lo hi t = (sorted (map stage t) \<and> list_all (\<lambda>a. lo \<le> stage a \<and> stage a \<le> hi) t)"

subsection \<open>A small consumer for concrete runs\<close>

text \<open>
  A transport that holds one record at offset 41 of partition 0 of the topic \<open>users\<close>,
  returns it at every poll and remembers the commits; codecs that know six byte
  strings; a handler that accepts every event.
\<close>

definition demo_utf8 :: "bytes \<Rightarrow> string option" where
  "demo_utf8 b =
     (if b = [1] then Some ''event''
      else if b = [2] then Some ''u1''
      else if b = [3] then Some ''untyped''
      else if b = [4] then Some ''not json''
      else if b = [5] then Some ''array''
      else if b = [6] then Some ''nested''
      else None)"

definition demo_event :: json where
  "demo_event = JObj [(''event_type'', JStr ''user.created''), (''payload'', JObj [(''id'', JStr ''u1'')])]"

definition demo_json :: "string \<Rightarrow> exn + json" where
  "demo_json t =
     (if t = ''event'' then Inr demo_event
      else if t = ''untyped'' then Inr (JObj [(''payload'', JObj [])])
      else if t = ''array'' then Inr (JArr [JInt 1])
      else if t = ''nested'' then Inl OtherException
      else Inl JSONDecodeError)"

definition demo_record :: "bytes \<Rightarrow> consumer_record" where
  "demo_record b = \<lparr>rec_value = Some b, rec_key = Some [2], rec_offset = 41, rec_headers = []\<rparr>"

definition demo_config :: "bytes \<Rightarrow> ((topic_partition \<times> int) list) consumer_config" where
  "demo_config b =
     \<lparr>getmany = (\<lambda>w. (Inr [((''users'', 0), [demo_record b])], w)),
      commit = (\<lambda>tp off w. (None, w @ [(tp, off)])),
      consumer_start = (\<lambda>w. (None, w)),
      utf8_decode = demo_utf8,
      json_loads = demo_json,
      handlers = Some (\<lambda>ev. None),
      filters = [],
      before_handle_callback = None,
      after_handle_callback = None\<rparr>"

text \<open>A consumer whose base-class attributes are set, without audit sink.\<close>

definition demo_state :: "((topic_partition \<times> int) list) consumer" where
  "demo_state =
     \<lparr>world = [], stopped = False, impl_started = True, mongo_connected = False, cur_headers = [],
      base_started = Some True, base_topic = Some ''users'', base_mapper = Some None\<rparr>"

text \<open>The event that the demo record decodes to, with the key added.\<close>

definition demo_keyed_event :: json where
  "demo_keyed_event =
     JObj [(''event_type'', JStr ''user.created''), (''payload'', JObj [(''id'', JStr ''u1'')]),
           (''key'', JStr ''u1'')]"

text \<open>The dictionary built for the demo record when its value decodes to \<open>message\<close>.\<close>

definition demo_consumed :: "json \<Rightarrow> event" where
  "demo_consumed message =
     \<lparr>ev_event = message,
      ev_meta_data = \<lparr>md_offset = Some 41, md_key = Some ''u1'', md_topic_partition = Some (''users'', 0)\<rparr>,
      ev_headers = []\<rparr>"

definition demo_batch :: "bytes \<Rightarrow> batch" where
  "demo_batch b = [((''users'', 0), [demo_record b])]"

text \<open>The demo record with a trace header whose bytes are not UTF-8.\<close>

definition bad_header_config :: "((topic_partition \<times> int) list) consumer_config" where
  "bad_header_config =
     (demo_config [1])\<lparr>getmany :=
        (\<lambda>w. (Inr [((''users'', 0),
                      [(demo_record [1])\<lparr>rec_headers := [(''root_id'', Header_bytes [255])]\<rparr>])], w))\<rparr>"

text \<open>
  A transport whose position advances with every poll, as a consumer's fetch position
  does: poll number \<open>i\<close> returns the record at offset \<open>i\<close>. The record at offset 0 is not
  JSON, the later ones are the demo event. Commits do not move the position.
\<close>

definition advancing_record :: "nat \<Rightarrow> consumer_record" where
  "advancing_record i =
     \<lparr>rec_value = Some (if i = 0 then [4] else [1]), rec_key = Some [2], rec_offset = int i,
      rec_headers = []\<rparr>"

definition advancing_config :: "nat consumer_config" where
  "advancing_config =
     \<lparr>getmany = (\<lambda>w. (Inr [((''users'', 0), [advancing_record w])], Suc w)),
      commit = (\<lambda>tp off w. (None, w)),
      consumer_start = (\<lambda>w. (None, w)),
      utf8_decode = demo_utf8,
      json_loads = demo_json,
      handlers = Some (\<lambda>ev. None),
      filters = [],
      before_handle_callback = None,
      after_handle_callback = None\<rparr>"

section \<open>Properties of the retrying cache client\<close>

lemma execute_loop_exhausted:
  assumes "\<forall>i. \<exists>e. super_execute i = Inl e \<and> is_redis_error e"
      and "redis_retry_count r \<le> redis_max_retries r"
  shows "execute_loop super_execute r = (res, r', t) \<Longrightarrow>
         res = Inr False_sentinel \<and> redis_retry_count r' = Suc (redis_max_retries r) \<and> redis_max_retries r' = redis_max_retries r
       \<and> sleeps t = map (\<lambda>k. 2 ^ (k - 1)) [Suc (redis_retry_count r)..<Suc (redis_max_retries r)]
       \<and> executions t = Suc (redis_max_retries r) - redis_retry_count r"
  using assms(2)
proof (induction "redis_max_retries r - redis_retry_count r" arbitrary: r res r' t)
  case 0
  obtain e where e: "super_execute (redis_retry_count r) = Inl e" "is_redis_error e"
    using assms(1) by blast
  from 0 have eq: "redis_retry_count r = redis_max_retries r" by simp
  show ?case using "0.prems"(1) e eq
    by (subst (asm) execute_loop.simps) (auto simp add: executions_def)
next
  case (Suc n)
  obtain e where e: "super_execute (redis_retry_count r) = Inl e" "is_redis_error e"
    using assms(1) by blast
  let ?r = "r\<lparr>redis_retry_count := redis_retry_count r + 1\<rparr>"
  from Suc.hyps(2) have lt: "redis_retry_count r < redis_max_retries r" by simp
  obtain res1 r1 t1 where rec: "execute_loop super_execute ?r = (res1, r1, t1)"
    by (metis prod_cases3)
  have n: "n = redis_max_retries ?r - redis_retry_count ?r" using Suc.hyps(2) by simp
  have le: "redis_retry_count ?r \<le> redis_max_retries ?r" using lt by simp
  note IH = Suc.hyps(1)[OF n rec le]
  have unf: "execute_loop super_execute r = (res1, r1, Execute # Sleep_backoff (2 ^ redis_retry_count r) # t1)"
    using e lt rec by (subst execute_loop.simps) (simp add: Let_def)
  have up: "[Suc (redis_retry_count r)..<Suc (redis_max_retries r)] = Suc (redis_retry_count r) # [Suc (Suc (redis_retry_count r))..<Suc (redis_max_retries r)]"
    using lt by (simp add: upt_conv_Cons)
  from Suc.prems(1) unf have eqs: "res = res1" "r' = r1" "t = Execute # Sleep_backoff (2 ^ redis_retry_count r) # t1"
    by simp_all
  have sl: "sleeps t = map (\<lambda>k. 2 ^ (k - 1)) [Suc (redis_retry_count r)..<Suc (redis_max_retries r)]"
    unfolding eqs up using IH by (simp del: upt_Suc)
  have ex: "executions t = Suc (redis_max_retries r) - redis_retry_count r"
    unfolding eqs using IH lt by (simp add: executions_def Suc_diff_le)
  show ?case using sl ex IH eqs by (simp del: upt_Suc)
qed

text \<open>
  Claim C7. When every attempt of the underlying command raises a connection, timeout or
  generic Redis error, the cache client's call does not raise: it returns the sentinel
  \<open>False\<close> after the first attempt and \<open>_max_retries\<close> retries, and the sleep before
  retry number \<open>k\<close> lasts \<open>2 ^ (k - 1)\<close> seconds.
\<close>

theorem cache_get_exhausted:
  assumes "\<forall>i. \<exists>e. super_execute i = Inl e \<and> is_redis_error e"
  shows "\<exists>r' t. cache_get super_execute r = (Inr False_sentinel, r', t)
       \<and> executions t = Suc (redis_max_retries r)
       \<and> sleeps t = map (\<lambda>k. 2 ^ (k - 1)) [1..<Suc (redis_max_retries r)]"
proof -
  let ?r = "r\<lparr>redis_retry_count := 0\<rparr>"
  obtain res r' t where run: "execute_loop super_execute ?r = (res, r', t)"
    by (metis prod_cases3)
  have "redis_retry_count ?r \<le> redis_max_retries ?r" by simp
  from execute_loop_exhausted[OF assms this run] run show ?thesis
    by (simp add: cache_get_def execute_command_def)
qed

theorem cache_get_exhausted_witness:
  "(\<forall>i. \<exists>e. (\<lambda>i. Inl RedisTimeoutError :: exn + nat) i = Inl e \<and> is_redis_error e) \<and>
   (\<exists>r' t. cache_get (\<lambda>i. Inl RedisTimeoutError :: exn + nat) retrying_redis_init = (Inr False_sentinel, r', t)
       \<and> executions t = 4 \<and> sleeps t = [1, 2, 4])"
proof -
  have h: "\<forall>i. \<exists>e. (\<lambda>i. Inl RedisTimeoutError :: exn + nat) i = Inl e \<and> is_redis_error e"
    by (simp add: is_redis_error_def)
  have u: "map (\<lambda>k. 2 ^ (k - 1)) [1..<Suc 3] = [1, 2, 4::nat]" by code_simp
  have m: "redis_max_retries retrying_redis_init = 3" by (simp add: retrying_redis_init_def)
  show ?thesis
    using h cache_get_exhausted[OF h, of retrying_redis_init]
    unfolding m u by simp
qed

section \<open>Properties of the producer\<close>

lemma publish_loop_all_fail:
  assumes dumps: "json_dumps T (message_of et pl ia) = Inr v"
      and fail: "\<forall>i. \<exists>e. transport_send T i = Some e \<and> is_transient e"
  shows "publish_loop T p et pl k ia rc sent =
           (Inl KafkaPublishMessageFailed,
            concat (replicate (nat (p_max_retry p - int rc))
                      [Send (p_topic p) v (key_formatted T k), Sleep_fixed (p_delay p)])
              @ [Send (p_topic p) v (key_formatted T k), Log_failed])"
proof (induction "nat (p_max_retry p - int rc)" arbitrary: rc sent)
  case 0
  obtain e where e: "transport_send T sent = Some e" "is_transient e"
    using fail by blast
  from 0 have ge: "int rc \<ge> p_max_retry p" by simp
  show ?case using e ge dumps
    by (subst publish_loop.simps) (simp add: Let_def)
next
  case (Suc n)
  obtain e where e: "transport_send T sent = Some e" "is_transient e"
    using fail by blast
  from Suc.hyps(2) have lt: "int rc < p_max_retry p" by simp
  have n: "n = nat (p_max_retry p - int (rc + 1))" using Suc.hyps(2) by simp
  note IH = Suc.hyps(1)[OF n, of "sent + 1"]
  have rep: "nat (p_max_retry p - int rc) = Suc (nat (p_max_retry p - int (rc + 1)))"
    using lt by simp
  show ?case using e lt dumps IH
    by (subst publish_loop.simps) (simp add: Let_def rep del: of_nat_Suc of_nat_add)
qed

lemma publish_loop_flaky:
  assumes dumps: "json_dumps T (message_of et pl ia) = Inr v"
      and fail: "\<forall>i < N. \<exists>e. transport_send T i = Some e \<and> is_transient e"
      and ok: "transport_send T N = None"
      and le: "sent \<le> N"
      and room: "int rc + int (N - sent) \<le> p_max_retry p"
  shows "publish_loop T p et pl k ia rc sent =
           (Inr (),
            concat (replicate (N - sent)
                      [Send (p_topic p) v (key_formatted T k), Sleep_fixed (p_delay p)])
              @ [Send (p_topic p) v (key_formatted T k)])"
  using le room
proof (induction "N - sent" arbitrary: rc sent)
  case 0
  then have "sent = N" by simp
  then show ?case using ok dumps
    by (subst publish_loop.simps) (simp add: Let_def)
next
  case (Suc n)
  from Suc.hyps(2) have lt: "sent < N" by simp
  obtain e where e: "transport_send T sent = Some e" "is_transient e"
    using fail lt by blast
  have n: "n = N - (sent + 1)" using Suc.hyps(2) by simp
  have le': "sent + 1 \<le> N" using lt by simp
  have room': "int (rc + 1) + int (N - (sent + 1)) \<le> p_max_retry p"
    using Suc.prems(2) lt by simp
  have rclt: "\<not> p_max_retry p \<le> int rc" using Suc.prems(2) lt by simp
  note IH = Suc.hyps(1)[OF n le' room']
  have rep: "N - sent = Suc (N - (sent + 1))" using lt by simp
  show ?case using e rclt dumps IH
    by (subst publish_loop.simps) (simp add: Let_def rep del: of_nat_Suc of_nat_add)
qed

lemma send_count_append: "send_count (a @ b) = send_count a + send_count b"
  by (simp add: send_count_def)

lemma sleep_delays_append: "sleep_delays (a @ b) = sleep_delays a @ sleep_delays b"
  by (simp add: sleep_delays_def)

lemma send_count_pattern:
  "send_count (concat (replicate n [Send tp v k, Sleep_fixed d])) = n"
  by (induction n) (simp_all add: send_count_def is_send_def)

lemma sleep_delays_pattern:
  "sleep_delays (concat (replicate n [Send tp v k, Sleep_fixed d])) = replicate n d"
  by (induction n) (simp_all add: sleep_delays_def)

lemma send_count_simps:
  "send_count [] = 0" "send_count [Transport_start] = 0" "send_count [Send tp v k] = 1"
  "send_count [Send tp v k, Log_failed] = 1"
  by (simp_all add: send_count_def is_send_def)

lemma sleep_delays_simps:
  "sleep_delays [] = []" "sleep_delays [Transport_start] = []" "sleep_delays [Send tp v k] = []"
  "sleep_delays [Send tp v k, Log_failed] = []"
  by (simp_all add: sleep_delays_def)

lemma publish_started:
  assumes "p_started p \<or> transport_start T = None"
  shows "publish T p et pl k ia =
           (fst (publish_loop T (p\<lparr>p_started := True\<rparr>) et pl k (issued_at_or_now T ia) 0 0),
            p\<lparr>p_started := True\<rparr>,
            (if p_started p then [] else [Transport_start])
              @ snd (publish_loop T (p\<lparr>p_started := True\<rparr>) et pl k (issued_at_or_now T ia) 0 0))"
proof (cases "p_started p")
  case True
  then have eq: "p\<lparr>p_started := True\<rparr> = p" by simp
  show ?thesis unfolding eq using True
    by (simp add: publish_def Let_def case_prod_beta)
next
  case False
  then show ?thesis using assms
    by (simp add: publish_def producer_start_def Let_def case_prod_beta)
qed

text \<open>
  Claim C4, as the code has it. When the producer is started (or starts), the message
  serialises and every send fails with a timeout, a connection error or a connection
  reset, \<open>publish\<close> raises \<open>KafkaPublishMessageFailed\<close>, once, after
  \<open>max_retry + 1\<close> sends: the first attempt and \<open>max_retry\<close> retries, each retry
  after a sleep of the fixed delay.
\<close>

theorem publish_always_failing:
  assumes "p_started p \<or> transport_start T = None"
      and "json_dumps T (message_of event_type payload (issued_at_or_now T issued_at)) = Inr v"
      and "\<forall>i. \<exists>e. transport_send T i = Some e \<and> is_transient e"
  shows "\<exists>p' t. publish T p event_type payload key issued_at = (Inl KafkaPublishMessageFailed, p', t)
           \<and> send_count t = nat (p_max_retry p) + 1
           \<and> sleep_delays t = replicate (nat (p_max_retry p)) (p_delay p)"
proof -
  let ?p = "p\<lparr>p_started := True\<rparr>"
  have loop: "publish_loop T ?p event_type payload key (issued_at_or_now T issued_at) 0 0 =
           (Inl KafkaPublishMessageFailed,
            concat (replicate (nat (p_max_retry p))
                      [Send (p_topic p) v (key_formatted T key), Sleep_fixed (p_delay p)])
              @ [Send (p_topic p) v (key_formatted T key), Log_failed])"
    using publish_loop_all_fail[OF assms(2,3), of ?p key 0 0] by simp
  show ?thesis
    unfolding publish_started[OF assms(1)] loop
    by (simp add: send_count_append sleep_delays_append send_count_pattern sleep_delays_pattern
          send_count_simps sleep_delays_simps)
qed

text \<open>
  Claim C6, as the code has it. On a producer that is started or whose start succeeds,
  with a message that \<open>json.dumps\<close> serialises: when the first \<open>N\<close> sends fail with a
  transient transport error, the next one is acknowledged and \<open>N < max_retry\<close>,
  \<open>publish\<close> returns normally; it sleeps exactly \<open>N\<close> times, each time for the fixed
  delay, and every send carries the same bytes, the serialisation of the message made of
  \<open>event_type or ""\<close>, \<open>payload or {}\<close> and the \<open>issued_at\<close> fixed on entry (the one
  given, or the clock's time read once), with the same key and the same topic.
\<close>

theorem publish_flaky:
  assumes "p_started p \<or> transport_start T = None"
      and "json_dumps T
             \<lparr>env_event_type = (case event_type of None \<Rightarrow> [] | Some s \<Rightarrow> s),
              env_payload = (case payload of None \<Rightarrow> [] | Some kv \<Rightarrow> kv),
              env_issued_at = (case issued_at of None \<Rightarrow> clock_now T | Some d \<Rightarrow> d)\<rparr> = Inr v"
      and "\<forall>i < N. \<exists>e. transport_send T i = Some e \<and> is_transient e"
      and "transport_send T N = None"
      and "int N < p_max_retry p"
  shows "publish T p event_type payload key issued_at =
           (Inr (), p\<lparr>p_started := True\<rparr>,
            (if p_started p then [] else [Transport_start])
              @ concat (replicate N
                  [Send (p_topic p) v
                     (case key of None \<Rightarrow> None | Some k \<Rightarrow> if k = [] then None else Some (utf8_encode T k)),
                   Sleep_fixed (p_delay p)])
              @ [Send (p_topic p) v
                   (case key of None \<Rightarrow> None | Some k \<Rightarrow> if k = [] then None else Some (utf8_encode T k))])"
proof -
  let ?p = "p\<lparr>p_started := True\<rparr>"
  have dumps: "json_dumps T (message_of event_type payload (issued_at_or_now T issued_at)) = Inr v"
    using assms(2) by (simp add: message_of_def issued_at_or_now_def)
  have kf: "key_formatted T key
      = (case key of None \<Rightarrow> None | Some k \<Rightarrow> if k = [] then None else Some (utf8_encode T k))"
    by (simp add: key_formatted_def)
  have room: "int 0 + int (N - 0) \<le> p_max_retry ?p" using assms(5) by simp
  have loop: "publish_loop T ?p event_type payload key (issued_at_or_now T issued_at) 0 0 =
           (Inr (),
            concat (replicate N [Send (p_topic p) v (key_formatted T key), Sleep_fixed (p_delay p)])
              @ [Send (p_topic p) v (key_formatted T key)])"
    using publish_loop_flaky[OF dumps assms(3,4) _ room, of key] by simp
  show ?thesis
    unfolding publish_started[OF assms(1)] loop kf by simp
qed

theorem publish_always_failing_witness:
  "(p_started producer3 \<or> transport_start failing_transport = None)
   \<and> json_dumps failing_transport
         (message_of (Some ''user.created'') (Some [(''id'', JStr ''u1'')])
            (issued_at_or_now failing_transport None)) = Inr [1, 2, 3]
   \<and> (\<forall>i. \<exists>e. transport_send failing_transport i = Some e \<and> is_transient e)
   \<and> (\<exists>p' t. publish failing_transport producer3 (Some ''user.created'')
                   (Some [(''id'', JStr ''u1'')]) (Some ''u1'') None
                 = (Inl KafkaPublishMessageFailed, p', t)
              \<and> send_count t = 4 \<and> sleep_delays t = [5, 5, 5])"
proof -
  have h1: "p_started producer3 \<or> transport_start failing_transport = None"
    by (simp add: failing_transport_def)
  have h2: "json_dumps failing_transport
         (message_of (Some ''user.created'') (Some [(''id'', JStr ''u1'')])
            (issued_at_or_now failing_transport None)) = Inr [1, 2, 3]"
    by (simp add: failing_transport_def)
  have h3: "\<forall>i. \<exists>e. transport_send failing_transport i = Some e \<and> is_transient e"
    by (simp add: failing_transport_def is_transient_def)
  have n: "nat (p_max_retry producer3) = 3" "p_delay producer3 = 5"
    by (simp_all add: producer3_def)
  have r: "replicate 3 (5::int) = [5, 5, 5]" by (simp add: numeral_3_eq_3)
  show ?thesis
    using h1 h2 h3 publish_always_failing[OF h1 h2 h3, of "Some ''u1''"]
    unfolding n r by simp
qed

text \<open>
  With \<open>max_retry = 3\<close> and a transport that always times out, \<open>publish\<close> sends
  four times before it raises, not three.
\<close>

theorem publish_attempts_counterexample:
  "fst (publish failing_transport producer3 (Some ''user.created'')
          (Some [(''id'', JStr ''u1'')]) (Some ''u1'') None) = Inl KafkaPublishMessageFailed
   \<and> send_count (snd (snd (publish failing_transport producer3 (Some ''user.created'')
          (Some [(''id'', JStr ''u1'')]) (Some ''u1'') None))) = 4
   \<and> send_count (snd (snd (publish failing_transport producer3 (Some ''user.created'')
          (Some [(''id'', JStr ''u1'')]) (Some ''u1'') None))) \<noteq> nat (p_max_retry producer3)"
  by code_simp

theorem publish_flaky_witness:
  "(p_started producer3 \<or> transport_start flaky_transport = None)
   \<and> json_dumps flaky_transport
         \<lparr>env_event_type = ''user.created'', env_payload = [(''id'', JStr ''u1'')],
          env_issued_at = clock_now flaky_transport\<rparr> = Inr [1, 2, 3]
   \<and> transport_send flaky_transport 0 = Some KafkaTimeoutError
   \<and> transport_send flaky_transport 1 = Some KafkaTimeoutError
   \<and> is_transient KafkaTimeoutError
   \<and> transport_send flaky_transport 2 = None
   \<and> int 2 < p_max_retry producer3
   \<and> publish flaky_transport producer3 (Some ''user.created'')
          (Some [(''id'', JStr ''u1'')]) (Some ''u1'') None
       = (Inr (), producer3\<lparr>p_started := True\<rparr>,
          [Transport_start,
           Send ''users'' [1, 2, 3] (Some (utf8_encode flaky_transport ''u1'')), Sleep_fixed 5,
           Send ''users'' [1, 2, 3] (Some (utf8_encode flaky_transport ''u1'')), Sleep_fixed 5,
           Send ''users'' [1, 2, 3] (Some (utf8_encode flaky_transport ''u1''))])"
proof -
  have h1: "p_started producer3 \<or> transport_start flaky_transport = None"
    by (simp add: flaky_transport_def)
  have h2: "json_dumps flaky_transport
         \<lparr>env_event_type = (case Some ''user.created'' of None \<Rightarrow> [] | Some s \<Rightarrow> s),
          env_payload = (case Some [(''id'', JStr ''u1'')] of None \<Rightarrow> [] | Some kv \<Rightarrow> kv),
          env_issued_at = (case None of None \<Rightarrow> clock_now flaky_transport | Some d \<Rightarrow> d)\<rparr>
       = Inr [1, 2, 3]"
    by (simp add: flaky_transport_def)
  have h3: "\<forall>i < 2. \<exists>e. transport_send flaky_transport i = Some e \<and> is_transient e"
    by (simp add: flaky_transport_def is_transient_def)
  have h3': "transport_send flaky_transport 0 = Some KafkaTimeoutError"
    "transport_send flaky_transport 1 = Some KafkaTimeoutError" "is_transient KafkaTimeoutError"
    by (simp_all add: flaky_transport_def is_transient_def)
  have h4: "transport_send flaky_transport 2 = None"
    by (simp add: flaky_transport_def)
  have h5: "int 2 < p_max_retry producer3"
    by (simp add: producer3_def)
  have n: "p_topic producer3 = ''users''" "p_delay producer3 = 5" "p_started producer3 = False"
    by (simp_all add: producer3_def)
  have r: "replicate 2 x = [x, x]" for x :: "producer_action list" by (simp add: numeral_2_eq_2)
  show ?thesis
    using h1 h2 h3' h4 h5 publish_flaky[OF h1 h2 h3 h4 h5, of "Some ''u1''"]
    unfolding n r by simp
qed

text \<open>
  Against the same backend, two timeouts and then an acknowledgement, with three retries
  allowed, \<open>publish\<close> raises when \<open>json.dumps\<close> refuses the message: nothing is sent.
\<close>

theorem publish_unserialisable_counterexample:
  "transport_send unserialisable_transport 0 = Some KafkaTimeoutError
   \<and> transport_send unserialisable_transport 1 = Some KafkaTimeoutError
   \<and> is_transient KafkaTimeoutError
   \<and> transport_send unserialisable_transport 2 = None
   \<and> int 2 < p_max_retry producer3
   \<and> publish unserialisable_transport producer3 (Some ''user.created'')
          (Some [(''id'', JStr ''u1'')]) (Some ''u1'') None
       = (Inl KafkaPublishMessageFailed, producer3\<lparr>p_started := True\<rparr>,
          [Transport_start, Log_failed])"
  by (simp add: publish_def producer_start_def publish_loop.simps unserialisable_transport_def
        flaky_transport_def producer3_def is_transient_def Let_def)

section \<open>Properties of the consumer loop\<close>

lemma commits_append: "commits (a @ b) = commits a @ commits b"
  by (induction a rule: commits.induct) simp_all

lemma handled_append: "handled (a @ b) = handled a @ handled b"
  by (induction a rule: handled.induct) simp_all

lemma listen_loop_Suc:
  "\<not> stopped s \<Longrightarrow> listen_loop (Suc n) cfg s =
     (case listen_iteration cfg s of
        (Raised e, s', t) \<Rightarrow> (Failed e, s', t)
      | (Continue, s', t) \<Rightarrow> (case listen_loop n cfg s' of (r, s'', t') \<Rightarrow> (r, s'', t @ t')))"
  by (subst listen_loop.simps) simp

lemma decode_record_meta:
  assumes "decode_record cfg tp r = Inr ev"
  shows "md_topic_partition (ev_meta_data ev) = Some tp"
    and "md_offset (ev_meta_data ev) = Some (rec_offset r)"
    and "ev_headers ev = rec_headers r"
  using assms
  by (auto simp: decode_record_def split: option.splits sum.splits if_splits)

lemma get_new_event_decoded:
  assumes "getmany cfg (world s) = (Inr batch, w)"
      and "first_record batch = Some (tp, r)"
      and "decode_record cfg tp r = Inr ev"
  shows "get_new_event cfg s = (Inr (Some ev), s\<lparr>world := w\<rparr>, [Getmany])"
  using assms by (simp add: get_new_event_def get_new_event_body_def)

lemma commit_event_decoded:
  assumes "decode_record cfg tp r = Inr ev"
  shows "\<exists>w' l. commit_event cfg s ev = (s\<lparr>world := w'\<rparr>, [Commit tp (rec_offset r + 1), l])
           \<and> commit cfg tp (rec_offset r + 1) (world s) = (if l = Log_committed then None else fst (commit cfg tp (rec_offset r + 1) (world s)), w')
           \<and> commits [l] = [] \<and> handled [l] = [] \<and> stage l = 9"
proof (cases "commit cfg tp (rec_offset r + 1) (world s)")
  case (Pair res w')
  show ?thesis
  proof (cases res)
    case None
    with Pair show ?thesis
      by (simp add: commit_event_def decode_record_meta[OF assms])
  next
    case (Some e)
    with Pair show ?thesis
      by (simp add: commit_event_def decode_record_meta[OF assms])
  qed
qed

lemma create_header_trace:
  assumes "create_header cfg s headers = (res, s', t)"
  shows "commits t = []" and "handled t = []" and "world s' = world s"
    and "\<forall>a \<in> set t. stage a = 2" and "stopped s' = stopped s"
  using assms
  by (auto simp: create_header_def split: sum.splits if_splits option.splits)

lemma filter_event_trace:
  "filter_event fs ev = (res, t) \<Longrightarrow> commits t = [] \<and> handled t = [] \<and> (\<forall>a \<in> set t. stage a = 3)"
proof (induction fs arbitrary: res t)
  case Nil
  then show ?case by simp
next
  case (Cons f fs)
  show ?case
  proof (cases "f ev")
    case None
    obtain r' t' where rec: "filter_event fs ev = (r', t')" by (cases "filter_event fs ev")
    from Cons.IH[OF rec] Cons.prems None rec show ?thesis by auto
  next
    case (Some e)
    with Cons.prems show ?thesis by auto
  qed
qed

lemma handle_event_body_commits:
  assumes "handle_event_body cfg ev = (res, t)"
  shows "commits t = []"
proof -
  obtain rf tf where f: "filter_event (filters cfg) ev = (rf, tf)"
    by (cases "filter_event (filters cfg) ev")
  from filter_event_trace[OF f] have c: "commits tf = []" by simp
  show ?thesis using assms f c
    by (auto simp: handle_event_body_def commits_append
             split: option.splits sum.splits if_splits prod.splits)
qed

lemma handle_event_commits:
  assumes "handle_event cfg ev = (res, t)"
  shows "commits t = []"
proof -
  obtain rb tb where b: "handle_event_body cfg ev = (rb, tb)"
    by (cases "handle_event_body cfg ev")
  from handle_event_body_commits[OF b] show ?thesis using assms b
    by (auto simp: handle_event_def commits_append split: option.splits if_splits)
qed

lemma listen_try_commits:
  assumes "listen_try cfg s event_data headers = (res, s', t)"
  shows "commits t = []" and "world s' = world s" and "stopped s' = stopped s"
proof -
  obtain rh sh th where h: "create_header cfg s headers = (rh, sh, th)"
    by (cases "create_header cfg s headers")
  obtain re te where e: "handle_event cfg event_data = (re, te)"
    by (cases "handle_event cfg event_data")
  note ch = create_header_trace[OF h] and he = handle_event_commits[OF e]
  show "commits t = []" using assms h e ch he
    by (auto simp: listen_try_def commits_append split: option.splits)
  show "world s' = world s" using assms h e ch
    by (auto simp: listen_try_def split: option.splits)
  show "stopped s' = stopped s" using assms h e ch
    by (auto simp: listen_try_def split: option.splits)
qed

text \<open>
  The \<open>except SkippableException\<close> branch of the loop: when the \<open>try\<close> block ends in
  a skippable exception for a decoded record, the turn commits the record's offset plus
  one on the record's partition, once, and the loop goes on with the next turn.
\<close>

lemma listen_skippable_commits:
  assumes "\<not> stopped s"
      and "getmany cfg (world s) = (Inr batch, w)"
      and "first_record batch = Some (tp, r)"
      and "decode_record cfg tp r = Inr ev"
      and "listen_try cfg (s\<lparr>world := w\<rparr>) (ev_event ev) (ev_headers ev) = (Some e, s2, t2)"
      and "is_skippable e"
  shows "\<exists>s3 t. listen_iteration cfg s = (Continue, s3, t)
           \<and> commits t = [(tp, rec_offset r + 1)]
           \<and> listen_loop (Suc n) cfg s =
               (case listen_loop n cfg s3 of (res, s4, t') \<Rightarrow> (res, s4, t @ t'))"
proof -
  obtain w' l where c: "commit_event cfg s2 ev = (s2\<lparr>world := w'\<rparr>, [Commit tp (rec_offset r + 1), l])"
      and l: "commits [l] = []"
    using commit_event_decoded[OF assms(4), of s2] by blast
  let ?t = "[Getmany] @ t2 @ [Log_skipped e] @ [Commit tp (rec_offset r + 1), l] @ [Log_finished]"
  have it: "listen_iteration cfg s = (Continue, s2\<lparr>world := w'\<rparr>, ?t)"
    using get_new_event_decoded[OF assms(2,3,4)] assms(5,6) c
    by (simp add: listen_iteration_def Let_def)
  have tail: "commits [Commit tp (rec_offset r + 1), l, Log_finished] = [(tp, rec_offset r + 1)]"
    using l by (cases l) simp_all
  have cm: "commits ?t = [(tp, rec_offset r + 1)]"
    using listen_try_commits(1)[OF assms(5)] tail by (simp add: commits_append)
  have lp: "listen_loop (Suc n) cfg s =
      (case listen_loop n cfg (s2\<lparr>world := w'\<rparr>) of (res, s4, t') \<Rightarrow> (res, s4, ?t @ t'))"
    unfolding listen_loop_Suc[OF assms(1)] it by simp
  show ?thesis using it cm lp by blast
qed

text \<open>
  Claim C2. When the handling of a decoded record raises a \<open>CriticalException\<close> or any
  exception that is not skippable, \<open>_handle_event\<close> raises a \<open>CriticalException\<close>,
  the loop ends with it, and the run contains no commit: the transport is left as the
  poll left it.
\<close>

theorem listen_critical_terminates:
  assumes "\<not> stopped s"
      and "getmany cfg (world s) = (Inr batch, w)"
      and "first_record batch = Some (tp, r)"
      and "decode_record cfg tp r = Inr ev"
      and "create_header cfg (s\<lparr>world := w\<rparr>) (ev_headers ev) = (None, s2, t2)"
      and "handle_event_body cfg (ev_event ev) = (Some e, t3)"
      and "\<not> is_skippable e"
  shows "\<exists>t. listen_loop (Suc n) cfg s = (Failed CriticalException, s2, t)
           \<and> commits t = [] \<and> world s2 = w"
proof -
  let ?l = "if e = CriticalException then Log_critical e else Log_unexpected e"
  have he: "handle_event cfg (ev_event ev) = (Some CriticalException, t3 @ [?l])"
    using assms(6,7) by (simp add: handle_event_def)
  have lt: "listen_try cfg (s\<lparr>world := w\<rparr>) (ev_event ev) (ev_headers ev)
              = (Some CriticalException, s2, t2 @ t3 @ [?l])"
    using assms(5) he by (simp add: listen_try_def)
  let ?t = "[Getmany] @ (t2 @ t3 @ [?l]) @ [Log_critical CriticalException, Log_finished]"
  have it: "listen_iteration cfg s = (Raised CriticalException, s2, ?t)"
    using get_new_event_decoded[OF assms(2,3,4)] lt
    by (simp add: listen_iteration_def Let_def is_skippable_def)
  have cm: "commits ?t = []"
    using listen_try_commits(1)[OF lt] by (simp add: commits_append)
  have w: "world s2 = w" using create_header_trace(3)[OF assms(5)] by simp
  have lp: "listen_loop (Suc n) cfg s = (Failed CriticalException, s2, ?t)"
    unfolding listen_loop_Suc[OF assms(1)] it by simp
  show ?thesis using lp cm w by blast
qed

lemmas demo_defs = demo_config_def demo_record_def demo_utf8_def demo_json_def demo_event_def
  demo_consumed_def demo_batch_def demo_state_def demo_keyed_event_def

lemma demo_poll: "getmany (demo_config b) (world demo_state) = (Inr (demo_batch b), [])"
  by (simp add: demo_defs)

lemma demo_first: "first_record (demo_batch b) = Some ((''users'', 0), demo_record b)"
  by (simp add: demo_defs)

lemma demo_decode_untyped:
  "decode_record (demo_config [3]) (''users'', 0) (demo_record [3])
     = Inr (demo_consumed (JObj [(''payload'', JObj [])]))"
  by (simp add: decode_record_def add_key_def demo_defs)

theorem listen_critical_terminates_witness:
  "\<not> stopped demo_state
   \<and> decode_record ((demo_config [1])\<lparr>handlers := Some (\<lambda>ev. Some OtherException)\<rparr>)
         (''users'', 0) (demo_record [1]) = Inr (demo_consumed demo_keyed_event)
   \<and> handle_event_body ((demo_config [1])\<lparr>handlers := Some (\<lambda>ev. Some OtherException)\<rparr>)
         demo_keyed_event = (Some OtherException, [Handle demo_keyed_event])
   \<and> \<not> is_skippable OtherException
   \<and> (\<exists>t. listen_loop (Suc 0) ((demo_config [1])\<lparr>handlers := Some (\<lambda>ev. Some OtherException)\<rparr>)
              demo_state = (Failed CriticalException, demo_state, t) \<and> commits t = [])"
proof -
  let ?cfg = "(demo_config [1])\<lparr>handlers := Some (\<lambda>ev. Some OtherException)\<rparr>"
  let ?ev = "demo_consumed demo_keyed_event"
  have h1: "\<not> stopped demo_state" by (simp add: demo_defs)
  have h2: "getmany ?cfg (world demo_state) = (Inr (demo_batch [1]), [])" by (simp add: demo_defs)
  have h4: "decode_record ?cfg (''users'', 0) (demo_record [1]) = Inr ?ev"
    by (simp add: decode_record_def add_key_def demo_defs)
  have h5: "create_header ?cfg (demo_state\<lparr>world := []\<rparr>) (ev_headers ?ev)
      = (None, demo_state, [Decode_headers, Set_headers []])"
    by (simp add: create_header_def decode_headers_def demo_defs)
  have h6: "handle_event_body ?cfg (ev_event ?ev) = (Some OtherException, [Handle demo_keyed_event])"
    by (simp add: handle_event_body_def demo_defs)
  have h7: "\<not> is_skippable OtherException" by (simp add: is_skippable_def)
  have e: "ev_event ?ev = demo_keyed_event" by (simp add: demo_consumed_def)
  from listen_critical_terminates[OF h1 h2 demo_first h4 h5 h6 h7, of 0]
  show ?thesis using h1 h4 h6 h7 unfolding e by blast
qed

text \<open>
  The \<open>else\<close> branch on an object whose base class has no attribute
  \<open>__event_root_mapper_service\<close>, which is every object the constructor builds: when
  the \<open>try\<close> block completes for a decoded record, reading the attribute raises
  \<open>AttributeError\<close>, the exception leaves the loop, and the turn makes no commit.
\<close>

lemma listen_success_attribute_error:
  assumes "\<not> stopped s"
      and "getmany cfg (world s) = (Inr batch, w)"
      and "first_record batch = Some (tp, r)"
      and "decode_record cfg tp r = Inr ev"
      and "listen_try cfg (s\<lparr>world := w\<rparr>) (ev_event ev) (ev_headers ev) = (None, s2, t2)"
      and "base_mapper s = None"
  shows "listen_loop (Suc n) cfg s = (Failed AttributeError, s2, [Getmany] @ t2 @ [Log_finished])"
    and "commits ([Getmany] @ t2 @ [Log_finished]) = []"
proof -
  obtain sh th where h: "create_header cfg (s\<lparr>world := w\<rparr>) (ev_headers ev) = (None, sh, th)"
      and s2: "s2 = sh"
    using assms(5) by (auto simp: listen_try_def split: option.splits prod.splits)
  have "base_mapper sh = base_mapper (s\<lparr>world := w\<rparr>)"
    using h by (auto simp: create_header_def split: sum.splits if_splits option.splits)
  then have bm: "base_mapper s2 = None" using assms(6) s2 by simp
  have sv: "listen_save_header s2 (ev_event ev) = (Some AttributeError, [])"
    using bm by (simp add: listen_save_header_def)
  have it: "listen_iteration cfg s = (Raised AttributeError, s2, [Getmany] @ t2 @ [Log_finished])"
    using get_new_event_decoded[OF assms(2,3,4)] assms(5) sv
    by (simp add: listen_iteration_def Let_def)
  show "listen_loop (Suc n) cfg s = (Failed AttributeError, s2, [Getmany] @ t2 @ [Log_finished])"
    unfolding listen_loop_Suc[OF assms(1)] it by simp
  show "commits ([Getmany] @ t2 @ [Log_finished]) = []"
    using listen_try_commits(1)[OF assms(5)] by (simp add: commits_append)
qed

text \<open>
  Claim C1 fails on the code. On the consumer that the constructor builds, polling the
  demo record at offset 41: \<open>listen\<close> itself raises \<open>AttributeError\<close> on its first
  line, reading \<open>self.__started\<close>; and a turn of its loop calls the handler, which
  returns, then raises \<open>AttributeError\<close> in the \<open>else\<close> branch, reading
  \<open>self.__event_root_mapper_service\<close>, and makes no commit.
\<close>

theorem listen_constructed_no_commit:
  "listen (Suc 0) (demo_config [1]) (consumer_init [] None)
     = (Failed AttributeError, consumer_init [] None, [])
   \<and> handle_event (demo_config [1]) demo_keyed_event = (None, [Handle demo_keyed_event])
   \<and> listen_loop (Suc 0) (demo_config [1]) (consumer_init [] None)
       = (Failed AttributeError, consumer_init [] None,
          [Getmany, Decode_headers, Set_headers [], Handle demo_keyed_event, Log_finished])
   \<and> commits [Getmany, Decode_headers, Set_headers [], Handle demo_keyed_event, Log_finished] = []"
proof -
  let ?s = "consumer_init [] None :: ((topic_partition \<times> int) list) consumer"
  have l: "listen (Suc 0) (demo_config [1]) ?s = (Failed AttributeError, ?s, [])"
    by (simp add: listen_def consumer_init_def)
  have h: "handle_event (demo_config [1]) demo_keyed_event = (None, [Handle demo_keyed_event])"
    by (simp add: handle_event_def handle_event_body_def demo_defs)
  have ns: "\<not> stopped ?s" by (simp add: consumer_init_def)
  have it: "listen_iteration (demo_config [1]) ?s =
      (Raised AttributeError, ?s,
       [Getmany, Decode_headers, Set_headers [], Handle demo_keyed_event, Log_finished])"
    by (simp add: listen_iteration_def get_new_event_def get_new_event_body_def decode_record_def
          add_key_def listen_try_def create_header_def decode_headers_def handle_event_def
          handle_event_body_def listen_save_header_def consumer_init_def Let_def demo_defs)
  show ?thesis unfolding listen_loop_Suc[OF ns] it using l h by simp
qed

text \<open>
  A trace header whose bytes are not UTF-8 makes \<open>_create_header\<close> raise the
  \<open>UnicodeDecodeError\<close> itself: the first \<open>try\<close> catches \<open>KeyError\<close> only, which
  \<open>_decode_headers\<close> never raises. Headers that are missing raise nothing.
\<close>

lemma create_header_undecodable:
  assumes "map_of (rev headers) ''root_id'' = Some (Header_bytes b)"
      and "utf8_decode cfg b = None"
  shows "fst (create_header cfg s headers) = Some UnicodeDecodeError"
    and "\<not> is_skippable UnicodeDecodeError"
  using assms by (simp_all add: create_header_def decode_headers_def is_skippable_def)

lemma create_header_missing:
  assumes "\<not> mongo_connected s"
  shows "create_header cfg s [] = (None, s\<lparr>cur_headers := []\<rparr>, [Decode_headers, Set_headers []])"
  using assms by (simp add: create_header_def decode_headers_def)

text \<open>
  Claim C3 fails on the code. The demo record with the trace header \<open>root_id\<close> set to
  bytes that are not UTF-8: the header error is not turned into an
  \<open>InvalidMessageException\<close>; the \<open>UnicodeDecodeError\<close>, which is not skippable,
  leaves the loop and the record is not committed. This is so on the consumer that the
  constructor builds and on one whose base-class attributes are set.
\<close>

theorem listen_bad_header_terminates:
  "listen_loop (Suc 0) bad_header_config (consumer_init [] None)
     = (Failed UnicodeDecodeError, consumer_init [] None, [Getmany, Decode_headers, Log_finished])
   \<and> listen_loop (Suc 0) bad_header_config demo_state
     = (Failed UnicodeDecodeError, demo_state, [Getmany, Decode_headers, Log_finished])
   \<and> \<not> is_skippable UnicodeDecodeError
   \<and> commits [Getmany, Decode_headers, Log_finished] = []"
proof -
  let ?s = "consumer_init [] None :: ((topic_partition \<times> int) list) consumer"
  have ns: "\<not> stopped ?s" "\<not> stopped demo_state" by (simp_all add: consumer_init_def demo_defs)
  have it1: "listen_iteration bad_header_config ?s =
      (Raised UnicodeDecodeError, ?s, [Getmany, Decode_headers, Log_finished])"
    by (simp add: listen_iteration_def get_new_event_def get_new_event_body_def decode_record_def
          add_key_def listen_try_def create_header_def decode_headers_def is_skippable_def
          bad_header_config_def consumer_init_def Let_def demo_defs)
  have it2: "listen_iteration bad_header_config demo_state =
      (Raised UnicodeDecodeError, demo_state, [Getmany, Decode_headers, Log_finished])"
    by (simp add: listen_iteration_def get_new_event_def get_new_event_body_def decode_record_def
          add_key_def listen_try_def create_header_def decode_headers_def is_skippable_def
          bad_header_config_def Let_def demo_defs)
  show ?thesis
    unfolding listen_loop_Suc[OF ns(1)] listen_loop_Suc[OF ns(2)] it1 it2
    by (simp add: is_skippable_def)
qed

lemma staged_Nil: "staged lo hi []"
  by (simp add: staged_def)

lemma staged_single: "lo \<le> stage a \<Longrightarrow> stage a \<le> hi \<Longrightarrow> staged lo hi [a]"
  by (simp add: staged_def)

lemma staged_weaken: "staged lo hi t \<Longrightarrow> lo' \<le> lo \<Longrightarrow> hi \<le> hi' \<Longrightarrow> staged lo' hi' t"
  by (auto simp: staged_def list_all_iff)

lemma staged_append:
  "staged lo m a \<Longrightarrow> staged m hi b \<Longrightarrow> lo \<le> m \<Longrightarrow> m \<le> hi \<Longrightarrow> staged lo hi (a @ b)"
  by (fastforce simp: staged_def list_all_iff sorted_append)

lemma staged_const: "\<forall>a \<in> set t. stage a = k \<Longrightarrow> staged k k t"
  by (induction t) (auto simp: staged_def list_all_iff)

lemma staged_sorted: "staged lo hi t \<Longrightarrow> sorted (map stage t)"
  by (simp add: staged_def)

lemma filter_event_staged: "filter_event fs ev = (res, t) \<Longrightarrow> staged 3 3 t"
  using filter_event_trace[of fs ev res t] by (simp add: staged_const)

lemma handle_event_body_staged:
  assumes "handle_event_body cfg ev = (res, t)"
  shows "staged 3 6 t"
proof -
  obtain rf tf where f: "filter_event (filters cfg) ev = (rf, tf)"
    by (cases "filter_event (filters cfg) ev")
  have tf: "staged 3 3 tf" by (rule filter_event_staged[OF f])
  have ap: "staged 3 6 (tf @ x)" if "staged 3 6 x" for x
    by (rule staged_append[OF tf that]) simp_all
  have s1: "staged 3 6 []" "staged 3 6 [Before_handle a]" "staged 3 6 [Handle b]"
    "staged 3 6 [Handle b, After_handle b]" "staged 3 6 [Before_handle a, Handle b]"
    "staged 3 6 [Before_handle a, Handle b, After_handle b]" for a b
    by (simp_all add: staged_def)
  show ?thesis using assms f ap[OF s1(1)] ap[OF s1(2)] ap[OF s1(3)] ap[OF s1(4)] ap[OF s1(5)] ap[OF s1(6)]
    by (auto simp: handle_event_body_def split: option.splits sum.splits if_splits prod.splits)
qed

lemma handle_event_staged:
  assumes "handle_event cfg ev = (res, t)"
  shows "staged 3 7 t"
proof -
  obtain rb tb where b: "handle_event_body cfg ev = (rb, tb)"
    by (cases "handle_event_body cfg ev")
  have tb: "staged 3 6 tb" by (rule handle_event_body_staged[OF b])
  have l: "staged 6 7 [Log_skipped e]" "staged 6 7 [Log_critical e]" "staged 6 7 [Log_unexpected e]" for e
    by (simp_all add: staged_def)
  show ?thesis using assms b staged_weaken[OF tb, of 3 7]
      staged_append[OF tb l(1)] staged_append[OF tb l(2)] staged_append[OF tb l(3)]
    by (auto simp: handle_event_def split: option.splits if_splits)
qed

lemma listen_try_staged:
  assumes "listen_try cfg s event_data headers = (res, s', t)"
  shows "staged 2 7 t"
proof -
  obtain rh sh th where h: "create_header cfg s headers = (rh, sh, th)"
    by (cases "create_header cfg s headers")
  obtain re te where e: "handle_event cfg event_data = (re, te)"
    by (cases "handle_event cfg event_data")
  have th: "staged 2 2 th" using create_header_trace(4)[OF h] by (rule staged_const)
  have te: "staged 2 7 te" using handle_event_staged[OF e] by (rule staged_weaken) simp_all
  show ?thesis using assms h e staged_weaken[OF th, of 2 7] staged_append[OF th te]
    by (auto simp: listen_try_def split: option.splits)
qed

lemma get_new_event_staged:
  assumes "get_new_event cfg s = (res, s', t)"
  shows "staged 0 1 t"
  using assms
  by (auto simp: get_new_event_def get_new_event_body_def staged_def
           split: prod.splits sum.splits option.splits if_splits)

lemma commit_event_staged:
  assumes "commit_event cfg s ev = (s', t)"
  shows "staged 9 9 t"
  using assms
  by (auto simp: commit_event_def staged_def Let_def split: prod.splits option.splits)

lemma listen_save_header_staged:
  assumes "listen_save_header s event_data = (res, t)"
  shows "staged 8 8 t"
  using assms
  by (auto simp: listen_save_header_def staged_def split: option.splits sum.splits)

lemma listen_iteration_staged:
  assumes "listen_iteration cfg s = (out, s', t)"
  shows "staged 0 10 t"
proof -
  obtain r1 s1 t1 where g: "get_new_event cfg s = (r1, s1, t1)"
    by (metis prod_cases3)
  have t1: "staged 0 1 t1" by (rule get_new_event_staged[OF g])
  have fin: "staged 10 10 [Log_finished]" "staged 10 10 [Sleep_debounce]" by (simp_all add: staged_def)
  show ?thesis
  proof (cases r1)
    case (Inl e)
    then show ?thesis using assms g staged_weaken[OF t1, of 0 10]
      by (simp add: listen_iteration_def)
  next
    case (Inr evo)
    show ?thesis
    proof (cases evo)
      case None
      have "staged 0 10 (t1 @ [Sleep_debounce])"
        by (rule staged_append[OF staged_weaken[OF t1, of 0 10] fin(2)]) simp_all
      then show ?thesis using assms g Inr None by (simp add: listen_iteration_def)
    next
      case (Some ev)
      obtain r2 s2 t2 where lt: "listen_try cfg s1 (ev_event ev) (ev_headers ev) = (r2, s2, t2)"
        by (metis prod_cases3)
      have t2: "staged 1 7 t2" using listen_try_staged[OF lt] by (rule staged_weaken) simp_all
      have t12: "staged 0 7 (t1 @ t2)" by (rule staged_append[OF t1 t2]) simp_all
      obtain s3 t3 where c: "commit_event cfg s2 ev = (s3, t3)"
        by (cases "commit_event cfg s2 ev")
      have t3: "staged 9 9 t3" by (rule commit_event_staged[OF c])
      have t3f: "staged 8 10 (t3 @ [Log_finished])"
        by (rule staged_append[OF staged_weaken[OF t3, of 8 10] fin(1)]) simp_all
      obtain r4 t4 where sv: "listen_save_header s2 (ev_event ev) = (r4, t4)"
        by (cases "listen_save_header s2 (ev_event ev)")
      have t4: "staged 7 8 t4" using listen_save_header_staged[OF sv] by (rule staged_weaken) simp_all
      have a1: "staged 0 10 ((t1 @ t2) @ [Log_skipped e] @ t3 @ [Log_finished])" for e
      proof -
        have "staged 7 10 ([Log_skipped e] @ t3 @ [Log_finished])"
          by (rule staged_append[OF _ t3f]) (simp_all add: staged_def)
        from staged_append[OF t12 this] show ?thesis by simp
      qed
      have a2: "staged 0 10 ((t1 @ t2) @ [Log_critical e, Log_finished])" for e
        by (rule staged_append[OF t12]) (simp_all add: staged_def)
      have a3: "staged 0 10 ((t1 @ t2) @ [Log_finished])"
        by (rule staged_append[OF t12]) (simp_all add: staged_def)
      have a4: "staged 0 10 ((t1 @ t2) @ t4 @ [Log_finished])"
      proof -
        have "staged 7 10 (t4 @ [Log_finished])"
          by (rule staged_append[OF t4]) (simp_all add: staged_def)
        from staged_append[OF t12 this] show ?thesis by simp
      qed
      have a5: "staged 0 10 ((t1 @ t2) @ t4 @ t3 @ [Log_finished])"
      proof -
        have "staged 7 10 (t4 @ t3 @ [Log_finished])"
          by (rule staged_append[OF t4 t3f]) simp_all
        from staged_append[OF t12 this] show ?thesis by simp
      qed
      show ?thesis using assms g Inr Some lt c sv a1 a2 a3 a4 a5
        by (auto simp: listen_iteration_def Let_def split: option.splits if_splits)
    qed
  qed
qed


lemma get_new_event_handled:
  assumes "get_new_event cfg s = (res, s', t)"
  shows "handled t = []"
  using assms
  by (auto simp: get_new_event_def get_new_event_body_def
           split: prod.splits sum.splits option.splits if_splits)

lemma commit_event_handled:
  assumes "commit_event cfg s ev = (s', t)"
  shows "handled t = []"
  using assms
  by (auto simp: commit_event_def Let_def split: prod.splits option.splits)

lemma handle_event_rejected:
  assumes "filter_event (filters cfg) ev = (Some e, tf)"
      and "handle_event cfg ev = (res, t)"
  shows "handled t = []" and "res \<noteq> None"
  using assms filter_event_trace[OF assms(1)]
  by (auto simp: handle_event_def handle_event_body_def handled_append split: if_splits)

lemma listen_iteration_rejected:
  assumes "get_new_event cfg s = (Inr (Some ev), s1, t1)"
      and "filter_event (filters cfg) (ev_event ev) = (Some e, tf)"
      and "listen_iteration cfg s = (out, s', t)"
  shows "handled t = []"
proof -
  obtain rh sh th where h: "create_header cfg s1 (ev_headers ev) = (rh, sh, th)"
    by (metis prod_cases3)
  obtain re te where he: "handle_event cfg (ev_event ev) = (re, te)"
    by (cases "handle_event cfg (ev_event ev)")
  note rej = handle_event_rejected[OF assms(2) he]
  obtain r2 s2 t2 where lt: "listen_try cfg s1 (ev_event ev) (ev_headers ev) = (r2, s2, t2)"
    by (metis prod_cases3)
  have t2: "handled t2 = []" and r2: "r2 \<noteq> None"
    using lt h he rej create_header_trace(2)[OF h]
    by (auto simp: listen_try_def handled_append split: option.splits)
  obtain s3 t3 where c: "commit_event cfg s2 ev = (s3, t3)"
    by (cases "commit_event cfg s2 ev")
  show ?thesis
    using assms(1,3) lt t2 r2 c commit_event_handled[OF c] get_new_event_handled[OF assms(1)]
    by (auto simp: listen_iteration_def Let_def handled_append split: if_splits)
qed

text \<open>
  Claim C5, as the code has it. The actions of every turn of the loop come in the order
  poll, decode, trace header, filters, before-callback, handler, after-callback,
  classification, audit, commit: the trace headers are decoded before the filter chain
  runs. A filter that raises rejects the event before the handler: the turn contains no
  handler call.
\<close>

theorem listen_iteration_order:
  "sorted (map stage (snd (snd (listen_iteration cfg s))))
   \<and> (get_new_event cfg s = (Inr (Some ev), s1, t1)
        \<and> fst (filter_event (filters cfg) (ev_event ev)) \<noteq> None
      \<longrightarrow> handled (snd (snd (listen_iteration cfg s))) = [])"
proof -
  obtain out s' t where it: "listen_iteration cfg s = (out, s', t)"
    by (metis prod_cases3)
  have a: "sorted (map stage t)"
    using listen_iteration_staged[OF it] by (rule staged_sorted)
  have b: "handled t = []"
    if g: "get_new_event cfg s = (Inr (Some ev), s1, t1)"
      and f: "fst (filter_event (filters cfg) (ev_event ev)) \<noteq> None"
  proof -
    obtain e tf where "filter_event (filters cfg) (ev_event ev) = (Some e, tf)"
      using f by (cases "filter_event (filters cfg) (ev_event ev)") auto
    from listen_iteration_rejected[OF g this it] show ?thesis .
  qed
  show ?thesis using a b by (simp add: it)
qed

theorem listen_iteration_order_witness:
  "get_new_event ((demo_config [1])\<lparr>filters := [\<lambda>ev. Some SkippableException]\<rparr>) demo_state
      = (Inr (Some (demo_consumed demo_keyed_event)), demo_state, [Getmany])
   \<and> fst (filter_event (filters ((demo_config [1])\<lparr>filters := [\<lambda>ev. Some SkippableException]\<rparr>))
             (ev_event (demo_consumed demo_keyed_event))) \<noteq> None
   \<and> sorted (map stage (snd (snd (listen_iteration
             ((demo_config [1])\<lparr>filters := [\<lambda>ev. Some SkippableException]\<rparr>) demo_state))))
   \<and> handled (snd (snd (listen_iteration
             ((demo_config [1])\<lparr>filters := [\<lambda>ev. Some SkippableException]\<rparr>) demo_state))) = []"
proof -
  let ?cfg = "(demo_config [1])\<lparr>filters := [\<lambda>ev. Some SkippableException]\<rparr>"
  have g: "get_new_event ?cfg demo_state = (Inr (Some (demo_consumed demo_keyed_event)), demo_state, [Getmany])"
    by (simp add: get_new_event_def get_new_event_body_def decode_record_def add_key_def demo_defs)
  have f: "fst (filter_event (filters ?cfg) (ev_event (demo_consumed demo_keyed_event))) \<noteq> None"
    by (simp add: demo_defs)
  from listen_iteration_order[of ?cfg demo_state "demo_consumed demo_keyed_event" demo_state "[Getmany]"] g f
  show ?thesis by blast
qed

text \<open>
  A run with one filter: the trace header is decoded and stored before the filter is
  called on the decoded event.
\<close>

theorem filter_after_headers_counterexample:
  "snd (snd (listen_iteration ((demo_config [1])\<lparr>filters := [\<lambda>ev. None]\<rparr>) demo_state))
     = [Getmany, Decode_headers, Set_headers [], Filter_call demo_keyed_event, Handle demo_keyed_event,
        Commit (''users'', 0) 42, Log_committed, Log_finished]"
  by (simp add: listen_iteration_def get_new_event_def get_new_event_body_def decode_record_def
        add_key_def listen_try_def create_header_def decode_headers_def handle_event_def
        handle_event_body_def listen_save_header_def commit_event_def Let_def demo_defs)


lemma decode_record_undecodable:
  assumes "rec_value r = Some body"
      and "utf8_decode cfg body = None
           \<or> (\<exists>text. utf8_decode cfg body = Some text \<and> json_loads cfg text = Inl JSONDecodeError)"
  shows "decode_record cfg tp r = Inl UnicodeDecodeError \<or> decode_record cfg tp r = Inl JSONDecodeError"
  using assms by (auto simp: decode_record_def)

lemma listen_iteration_undecodable:
  assumes "getmany cfg (world s) = (Inr batch, w)"
      and "first_record batch = Some (tp, r)"
      and "rec_value r = Some body"
      and "utf8_decode cfg body = None
           \<or> (\<exists>text. utf8_decode cfg body = Some text \<and> json_loads cfg text = Inl JSONDecodeError)"
  shows "listen_iteration cfg s = (Continue, s\<lparr>world := w\<rparr>, [Getmany, Log_decoding_error, Sleep_debounce])"
  using assms(1,2) decode_record_undecodable[OF assms(3,4), of tp]
  by (auto simp: listen_iteration_def get_new_event_def get_new_event_body_def)

text \<open>
  When \<open>json.loads\<close> raises anything else, the inner handler does not catch it: the
  outer one logs its own line, and the turn ends the same way, without commit.
\<close>

lemma listen_iteration_loads_error:
  assumes "getmany cfg (world s) = (Inr batch, w)"
      and "first_record batch = Some (tp, r)"
      and "rec_value r = Some body"
      and "utf8_decode cfg body = Some text"
      and "json_loads cfg text = Inl e"
      and "e \<noteq> JSONDecodeError" and "e \<noteq> UnicodeDecodeError"
  shows "listen_iteration cfg s = (Continue, s\<lparr>world := w\<rparr>, [Getmany, Log_get_event_error e, Sleep_debounce])"
  using assms
  by (simp add: listen_iteration_def get_new_event_def get_new_event_body_def decode_record_def)

text \<open>
  Claim C8, as the code has it. When the value of the polled record fails UTF-8 decoding,
  or JSON parsing with a \<open>JSONDecodeError\<close>, the turn logs the decoding error, makes no
  commit, and ends like an empty poll, with the short sleep, and the loop goes on. The
  turn has touched the transport by the poll only: the state of the transport is the one
  the poll left, so what the next poll returns is for the transport alone to decide.
\<close>

theorem listen_decode_failure:
  assumes "\<not> stopped s"
      and "getmany cfg (world s) = (Inr batch, w)"
      and "first_record batch = Some (tp, r)"
      and "rec_value r = Some body"
      and "utf8_decode cfg body = None
           \<or> (\<exists>text. utf8_decode cfg body = Some text \<and> json_loads cfg text = Inl JSONDecodeError)"
  shows "listen_iteration cfg s = (Continue, s\<lparr>world := w\<rparr>, [Getmany, Log_decoding_error, Sleep_debounce])
       \<and> commits [Getmany, Log_decoding_error, Sleep_debounce] = []
       \<and> listen_loop (Suc n) cfg s =
            (case listen_loop n cfg (s\<lparr>world := w\<rparr>) of
               (res, s', t) \<Rightarrow> (res, s', [Getmany, Log_decoding_error, Sleep_debounce] @ t))"
proof -
  have it: "listen_iteration cfg s = (Continue, s\<lparr>world := w\<rparr>, [Getmany, Log_decoding_error, Sleep_debounce])"
    by (rule listen_iteration_undecodable[OF assms(2-5)])
  show ?thesis unfolding listen_loop_Suc[OF assms(1)] it by simp
qed

theorem listen_decode_failure_witness:
  "\<not> stopped (consumer_init [] None :: ((topic_partition \<times> int) list) consumer)
   \<and> getmany (demo_config [4]) [] = (Inr (demo_batch [4]), [])
   \<and> first_record (demo_batch [4]) = Some ((''users'', 0), demo_record [4])
   \<and> rec_value (demo_record [4]) = Some [4]
   \<and> utf8_decode (demo_config [4]) [4] = Some ''not json''
   \<and> json_loads (demo_config [4]) ''not json'' = Inl JSONDecodeError
   \<and> listen_iteration (demo_config [4]) (consumer_init [] None)
        = (Continue, consumer_init [] None, [Getmany, Log_decoding_error, Sleep_debounce])
   \<and> listen_loop (Suc 0) (demo_config [4]) (consumer_init [] None)
        = (Running, consumer_init [] None, [Getmany, Log_decoding_error, Sleep_debounce])"
proof -
  let ?s = "consumer_init [] None :: ((topic_partition \<times> int) list) consumer"
  have h1: "\<not> stopped ?s" by (simp add: consumer_init_def)
  have h2: "getmany (demo_config [4]) (world ?s) = (Inr (demo_batch [4]), [])"
    by (simp add: consumer_init_def demo_defs)
  have h4: "rec_value (demo_record [4]) = Some [4]" by (simp add: demo_defs)
  have u: "utf8_decode (demo_config [4]) [4] = Some ''not json''" by (simp add: demo_defs)
  have j: "json_loads (demo_config [4]) ''not json'' = Inl JSONDecodeError" by (simp add: demo_defs)
  have h5: "utf8_decode (demo_config [4]) [4] = None
      \<or> (\<exists>text. utf8_decode (demo_config [4]) [4] = Some text
                 \<and> json_loads (demo_config [4]) text = Inl JSONDecodeError)"
    using u j by simp
  have w: "?s\<lparr>world := []\<rparr> = ?s" "world ?s = []" by (simp_all add: consumer_init_def)
  have l0: "listen_loop 0 (demo_config [4]) ?s = (Running, ?s, [])"
    using h1 by (subst listen_loop.simps) simp
  from listen_decode_failure[OF h1 h2 demo_first h4 h5, of 0]
  show ?thesis using h1 h2 demo_first h4 u j unfolding w l0 by simp
qed

text \<open>
  The record is not returned again by a transport whose position advances with each
  poll: the turn that fails to decode the record at offset 0 leaves the position at 1,
  nothing has been committed, and the next poll returns the record at offset 1.
\<close>

theorem poll_advancing_counterexample:
  "getmany advancing_config 0 = (Inr [((''users'', 0), [advancing_record 0])], 1)
   \<and> listen_iteration advancing_config (consumer_init 0 None)
        = (Continue, consumer_init 1 None, [Getmany, Log_decoding_error, Sleep_debounce])
   \<and> getmany advancing_config (world (consumer_init 1 None :: nat consumer))
        = (Inr [((''users'', 0), [advancing_record 1])], 2)
   \<and> rec_offset (advancing_record 0) = 0
   \<and> rec_offset (advancing_record 1) = 1
   \<and> advancing_record 1 \<noteq> advancing_record 0"
  by (simp add: listen_iteration_def get_new_event_def get_new_event_body_def decode_record_def
        advancing_config_def advancing_record_def consumer_init_def demo_utf8_def demo_json_def)

text \<open>
  Claim C9. \<open>_get_new_event\<close> always returns: an exception raised while polling or
  reading the batch is logged and turned into the empty result, the turn of the loop
  ends like one with an empty batch, and the loop goes on.
\<close>

theorem get_new_event_total:
  "(\<exists>r s' t. get_new_event cfg s = (Inr r, s', t))
   \<and> (get_new_event_body cfg s = (Inl e, s1, t1) \<longrightarrow>
        get_new_event cfg s = (Inr None, s1, t1 @ [Log_get_event_error e])
        \<and> listen_iteration cfg s = (Continue, s1, t1 @ [Log_get_event_error e, Sleep_debounce]))
   \<and> (\<not> stopped s \<and> getmany cfg (world s) = (Inl e, w) \<longrightarrow>
        listen_loop (Suc n) cfg s =
          (case listen_loop n cfg (s\<lparr>world := w\<rparr>) of
             (res, s', t) \<Rightarrow> (res, s', [Getmany, Log_get_event_error e, Sleep_debounce] @ t)))"
proof -
  have a: "\<exists>r s' t. get_new_event cfg s = (Inr r, s', t)"
    by (cases "get_new_event_body cfg s" rule: prod_cases3)
       (auto simp: get_new_event_def split: sum.splits)
  have b: "get_new_event cfg s = (Inr None, s1, t1 @ [Log_get_event_error e])
        \<and> listen_iteration cfg s = (Continue, s1, t1 @ [Log_get_event_error e, Sleep_debounce])"
    if "get_new_event_body cfg s = (Inl e, s1, t1)"
    using that by (simp add: get_new_event_def listen_iteration_def)
  have c: "listen_loop (Suc n) cfg s =
          (case listen_loop n cfg (s\<lparr>world := w\<rparr>) of
             (res, s', t) \<Rightarrow> (res, s', [Getmany, Log_get_event_error e, Sleep_debounce] @ t))"
    if ns: "\<not> stopped s" and g: "getmany cfg (world s) = (Inl e, w)"
  proof -
    have "listen_iteration cfg s = (Continue, s\<lparr>world := w\<rparr>, [Getmany, Log_get_event_error e, Sleep_debounce])"
      using g by (simp add: get_new_event_def get_new_event_body_def listen_iteration_def)
    then show ?thesis unfolding listen_loop_Suc[OF ns] by simp
  qed
  show ?thesis using a b c by blast
qed

theorem get_new_event_total_witness:
  "get_new_event_body ((demo_config [1])\<lparr>getmany := (\<lambda>w. (Inl KafkaConnectionError, w))\<rparr>) demo_state
      = (Inl KafkaConnectionError, demo_state, [Getmany])
   \<and> \<not> stopped demo_state
   \<and> get_new_event ((demo_config [1])\<lparr>getmany := (\<lambda>w. (Inl KafkaConnectionError, w))\<rparr>) demo_state
      = (Inr None, demo_state, [Getmany, Log_get_event_error KafkaConnectionError])
   \<and> listen_loop (Suc 0) ((demo_config [1])\<lparr>getmany := (\<lambda>w. (Inl KafkaConnectionError, w))\<rparr>) demo_state
      = (Running, demo_state, [Getmany, Log_get_event_error KafkaConnectionError, Sleep_debounce])"
proof -
  let ?cfg = "(demo_config [1])\<lparr>getmany := (\<lambda>w. (Inl KafkaConnectionError, w))\<rparr>"
  have b: "get_new_event_body ?cfg demo_state = (Inl KafkaConnectionError, demo_state, [Getmany])"
    by (simp add: get_new_event_body_def demo_defs)
  have ns: "\<not> stopped demo_state" by (simp add: demo_defs)
  have g: "getmany ?cfg (world demo_state) = (Inl KafkaConnectionError, [])" by (simp add: demo_defs)
  have w: "demo_state\<lparr>world := []\<rparr> = demo_state" by (simp add: demo_defs)
  have l0: "listen_loop 0 ?cfg demo_state = (Running, demo_state, [])"
    using ns by (subst listen_loop.simps) simp
  from get_new_event_total[of ?cfg demo_state KafkaConnectionError demo_state "[Getmany]" "[]" 0]
  show ?thesis using b ns g unfolding w l0 by simp
qed


text \<open>
  Claim C10, as the code has it. When the event that has passed the filters and the
  optional before-callback is a dictionary without \<open>event_type\<close>, \<open>_handle_event\<close>
  raises an \<open>InvalidMessageException\<close> without calling the handler; the turn commits
  the record's offset plus one and contains no handler call.
\<close>

theorem missing_event_type_skipped:
  assumes "\<not> stopped s"
      and "getmany cfg (world s) = (Inr batch, w)"
      and "first_record batch = Some (tp, r)"
      and "decode_record cfg tp r = Inr ev"
      and "create_header cfg (s\<lparr>world := w\<rparr>) (ev_headers ev) = (None, s2, t2)"
      and "filter_event (filters cfg) (ev_event ev) = (None, tf)"
      and "(case before_handle_callback cfg of None \<Rightarrow> Inr (ev_event ev) | Some cb \<Rightarrow> cb (ev_event ev))
             = Inr (JObj kv)"
      and "map_of kv ''event_type'' = None"
  shows "fst (handle_event_body cfg (ev_event ev)) = Some InvalidMessageException
       \<and> handled (snd (handle_event_body cfg (ev_event ev))) = []
       \<and> (\<exists>s3 t. listen_iteration cfg s = (Continue, s3, t)
              \<and> handled t = [] \<and> commits t = [(tp, rec_offset r + 1)])"
proof -
  let ?tb = "case before_handle_callback cfg of None \<Rightarrow> [] | Some cb \<Rightarrow> [Before_handle (ev_event ev)]"
  have hf: "handled tf = []" using filter_event_trace[OF assms(6)] by simp
  have htb: "handled ?tb = []" by (simp split: option.splits)
  have body: "handle_event_body cfg (ev_event ev) = (Some InvalidMessageException, tf @ ?tb)"
    using assms(6,7,8) by (auto simp: handle_event_body_def split: option.splits)
  have he: "handle_event cfg (ev_event ev)
      = (Some InvalidMessageException, (tf @ ?tb) @ [Log_skipped InvalidMessageException])"
    using body by (simp add: handle_event_def is_skippable_def)
  let ?t2 = "t2 @ (tf @ ?tb) @ [Log_skipped InvalidMessageException]"
  have lt: "listen_try cfg (s\<lparr>world := w\<rparr>) (ev_event ev) (ev_headers ev)
      = (Some InvalidMessageException, s2, ?t2)"
    using assms(5) he by (simp add: listen_try_def)
  obtain w' l where c: "commit_event cfg s2 ev = (s2\<lparr>world := w'\<rparr>, [Commit tp (rec_offset r + 1), l])"
      and l: "commits [l] = []" "handled [l] = []"
    using commit_event_decoded[OF assms(4), of s2] by blast
  let ?t = "[Getmany] @ ?t2 @ [Log_skipped InvalidMessageException]
              @ [Commit tp (rec_offset r + 1), l] @ [Log_finished]"
  have it: "listen_iteration cfg s = (Continue, s2\<lparr>world := w'\<rparr>, ?t)"
    using get_new_event_decoded[OF assms(2,3,4)] lt c
    by (simp add: listen_iteration_def Let_def is_skippable_def)
  have ctail: "commits [Commit tp (rec_offset r + 1), l, Log_finished] = [(tp, rec_offset r + 1)]"
    using l(1) by (cases l) simp_all
  have htail: "handled [Commit tp (rec_offset r + 1), l, Log_finished] = []"
    using l(2) by (cases l) simp_all
  have cm: "commits ?t = [(tp, rec_offset r + 1)]"
    using listen_try_commits(1)[OF lt] ctail by (simp add: commits_append)
  have h2: "handled t2 = []" using create_header_trace(2)[OF assms(5)] .
  have hd: "handled ?t = []"
    using h2 hf htb htail by (simp add: handled_append)
  have hb: "handled (snd (handle_event_body cfg (ev_event ev))) = []"
    using body hf htb by (simp add: handled_append)
  show ?thesis using body hb it cm hd by simp
qed

theorem missing_event_type_skipped_witness:
  "\<not> stopped (consumer_init [] None :: ((topic_partition \<times> int) list) consumer)
   \<and> decode_record (demo_config [3]) (''users'', 0) (demo_record [3])
        = Inr (demo_consumed (JObj [(''payload'', JObj [])]))
   \<and> filter_event (filters (demo_config [3])) (JObj [(''payload'', JObj [])]) = (None, [])
   \<and> map_of [(''payload'', JObj [])] ''event_type'' = None
   \<and> fst (handle_event_body (demo_config [3]) (JObj [(''payload'', JObj [])])) = Some InvalidMessageException
   \<and> (\<exists>s3 t. listen_iteration (demo_config [3]) (consumer_init [] None) = (Continue, s3, t)
          \<and> handled t = [] \<and> commits t = [((''users'', 0), 42)])"
proof -
  let ?cfg = "demo_config [3]"
  let ?s = "consumer_init [] None :: ((topic_partition \<times> int) list) consumer"
  let ?m = "JObj [(''payload'', JObj [])]"
  let ?ev = "demo_consumed ?m"
  have h1: "\<not> stopped ?s" by (simp add: consumer_init_def)
  have h2: "getmany ?cfg (world ?s) = (Inr (demo_batch [3]), [])"
    by (simp add: consumer_init_def demo_defs)
  have h5: "create_header ?cfg (?s\<lparr>world := []\<rparr>) (ev_headers ?ev)
      = (None, ?s, [Decode_headers, Set_headers []])"
    by (simp add: create_header_def decode_headers_def consumer_init_def demo_defs)
  have h6: "filter_event (filters ?cfg) (ev_event ?ev) = (None, [])" by (simp add: demo_defs)
  have h7: "(case before_handle_callback ?cfg of None \<Rightarrow> Inr (ev_event ?ev) | Some cb \<Rightarrow> cb (ev_event ?ev))
             = Inr (JObj [(''payload'', JObj [])])"
    by (simp add: demo_defs)
  have h8: "map_of [(''payload'', JObj [])] ''event_type'' = None" by simp
  have e: "ev_event ?ev = ?m" by (simp add: demo_consumed_def)
  have r: "rec_offset (demo_record [3]) + 1 = 42" by (simp add: demo_defs)
  from missing_event_type_skipped[OF h1 h2 demo_first demo_decode_untyped h5 h6 h7 h8]
  show ?thesis using h1 demo_decode_untyped h6 h8 unfolding e r by blast
qed

text \<open>
  A decoded value that is not a dictionary has no \<open>event_type\<close> field either: on a
  JSON array \<open>event.get\<close> raises \<open>AttributeError\<close>, which is promoted to a
  \<open>CriticalException\<close>; the loop ends and the record is not committed.
\<close>

theorem non_dict_event_counterexample:
  "decode_record (demo_config [5]) (''users'', 0) (demo_record [5]) = Inr (demo_consumed (JArr [JInt 1]))
   \<and> py_get (JArr [JInt 1]) ''event_type'' = Inl AttributeError
   \<and> listen_loop (Suc 0) (demo_config [5]) (consumer_init [] None)
        = (Failed CriticalException, consumer_init [] None,
           [Getmany, Decode_headers, Set_headers [], Log_unexpected AttributeError,
            Log_critical CriticalException, Log_finished])
   \<and> commits [Getmany, Decode_headers, Set_headers [], Log_unexpected AttributeError,
               Log_critical CriticalException, Log_finished] = []"
proof -
  let ?s = "consumer_init [] None :: ((topic_partition \<times> int) list) consumer"
  have ns: "\<not> stopped ?s" by (simp add: consumer_init_def)
  have d: "decode_record (demo_config [5]) (''users'', 0) (demo_record [5]) = Inr (demo_consumed (JArr [JInt 1]))"
    by (simp add: decode_record_def add_key_def demo_defs)
  have it: "listen_iteration (demo_config [5]) ?s =
      (Raised CriticalException, ?s,
       [Getmany, Decode_headers, Set_headers [], Log_unexpected AttributeError,
        Log_critical CriticalException, Log_finished])"
    by (simp add: listen_iteration_def get_new_event_def get_new_event_body_def decode_record_def
          add_key_def listen_try_def create_header_def decode_headers_def handle_event_def
          handle_event_body_def is_skippable_def consumer_init_def Let_def demo_defs)
  show ?thesis unfolding listen_loop_Suc[OF ns] it using d by simp
qed

text \<open>
  On an object as the constructor of the implementation class leaves it, \<open>listen\<close>
  fails on its first line: \<open>self.__started\<close>, read in the base class, is an attribute
  that no code of the repository sets.
\<close>

lemma listen_after_init:
  "listen n cfg (consumer_init w svc) = (Failed AttributeError, consumer_init w svc, [])"
  by (simp add: listen_def consumer_init_def)


end
